theory Spec2Isabelle
  imports Complex_Main
begin

section \<open>JavaScript values\<close>

text \<open>
  A JavaScript string is a sequence of UTF-16 code units; \<open>length\<close>, indexing, \<open>split\<close>,
  \<open>startsWith\<close> and regular expressions without the \<open>u\<close> flag all count code units.
  A code unit is held as a natural number (below 65536), so that the mathematical symbols
  the source matches (all in the Basic Multilingual Plane) are single elements.
  \<open>js\<close> reads an ASCII literal as such a string.
\<close>

type_synonym jstring = "nat list"

abbreviation js :: "string \<Rightarrow> jstring" where
  "js s \<equiv> map of_char s"

text \<open>
  A number produced by \<open>JSON.parse\<close> is a finite double or an infinity (\<open>1e999\<close>);
  it is never NaN. A finite double is held by its exact rational value.
\<close>

datatype jsnum = Fin rat | PosInf | NegInf

datatype jsval =
    JUndefined
  | JNull
  | JBool bool
  | JNum jsnum
  | JStr jstring
  | JArr "jsval list"
  | JObj "(jstring \<times> jsval) list"

datatype error =
    Error jstring      \<comment> \<open>\<open>throw new Error(message)\<close>\<close>
  | TypeError          \<comment> \<open>raised by the runtime: property read on null/undefined, call of a non-function\<close>
  | Rejected jstring   \<comment> \<open>a rejected promise of the transport (\<open>fetch\<close>, \<open>reader.read()\<close>, the SDK), with its message\<close>

text \<open>\<open>if (v)\<close>, \<open>!v\<close>, \<open>a || b\<close>: JavaScript truthiness.\<close>

fun truthy :: "jsval \<Rightarrow> bool" where
  "truthy JUndefined = False"
| "truthy JNull = False"
| "truthy (JBool b) = b"
| "truthy (JNum (Fin q)) = (q \<noteq> 0)"
| "truthy (JNum _) = True"
| "truthy (JStr s) = (s \<noteq> [])"
| "truthy (JArr _) = True"
| "truthy (JObj _) = True"

definition js_or :: "jsval \<Rightarrow> jsval \<Rightarrow> jsval" where
  "js_or a b = (if truthy a then a else b)"

fun nullish :: "jsval \<Rightarrow> bool" where
  "nullish JUndefined = True"
| "nullish JNull = True"
| "nullish _ = False"

text \<open>
  \<open>v.k\<close> for a key \<open>k\<close> that no built-in prototype defines (every key the program reads:
  \<open>choices\<close>, \<open>delta\<close>, \<open>content\<close>, \<open>message\<close>, \<open>candidates\<close>, \<open>parts\<close>, \<open>text\<close>, \<open>q\<close>,
  \<open>question\<close>, \<open>opts\<close>, \<open>options\<close>, \<open>ans\<close>, \<open>correctAnswer\<close>, \<open>exp\<close>, \<open>explanation\<close>).
  Reading a property of \<open>null\<close> or \<open>undefined\<close> raises a TypeError; a primitive or an
  array has no such property; an object answers with its own property. A \<open>JObj\<close> lists
  the own properties of a parsed object, each key once.
\<close>

fun get_prop :: "jsval \<Rightarrow> jstring \<Rightarrow> error + jsval" where
  "get_prop JUndefined k = Inl TypeError"
| "get_prop JNull k = Inl TypeError"
| "get_prop (JObj kvs) k = Inr (case map_of kvs k of None \<Rightarrow> JUndefined | Some v \<Rightarrow> v)"
| "get_prop _ k = Inr JUndefined"

text \<open>\<open>v[0]\<close> on a value that is not null or undefined.\<close>

fun get_index0 :: "jsval \<Rightarrow> jsval" where
  "get_index0 (JArr []) = JUndefined"
| "get_index0 (JArr (x # xs)) = x"
| "get_index0 (JStr []) = JUndefined"
| "get_index0 (JStr (c # cs)) = JStr [c]"
| "get_index0 (JObj kvs) = (case map_of kvs (js ''0'') of None \<Rightarrow> JUndefined | Some v \<Rightarrow> v)"
| "get_index0 _ = JUndefined"

text \<open>\<open>v?.k\<close>: undefined when \<open>v\<close> is null or undefined, and then never a TypeError.\<close>

definition opt_prop :: "jsval \<Rightarrow> jstring \<Rightarrow> jsval" where
  "opt_prop v k = (if nullish v then JUndefined
                   else (case get_prop v k of Inl e \<Rightarrow> JUndefined | Inr x \<Rightarrow> x))"

definition opt_index0 :: "jsval \<Rightarrow> jsval" where
  "opt_index0 v = (if nullish v then JUndefined else get_index0 v)"

text \<open>\<open>s.includes(sub)\<close> and \<open>s.startsWith(p)\<close> on strings.\<close>

fun starts_with :: "jstring \<Rightarrow> jstring \<Rightarrow> bool" where
  "starts_with [] s = True"
| "starts_with (p # ps) [] = False"
| "starts_with (p # ps) (c # cs) = (p = c \<and> starts_with ps cs)"

fun js_includes :: "jstring \<Rightarrow> jstring \<Rightarrow> bool" where
  "js_includes sub [] = (sub = [])"
| "js_includes sub (c # cs) = (starts_with sub (c # cs) \<or> js_includes sub cs)"

section \<open>Settings and the model catalog (types.ts)\<close>

record CustomModel =
  mid :: jstring
  mname :: jstring
  mprovider :: jstring

record LjoveSToolsSettings =
  provider :: jstring
  geminiApiKey :: jstring
  openaiApiKey :: jstring
  deepseekApiKey :: jstring
  model :: jstring
  instructionPrompt :: jstring
  customModels :: "CustomModel list"
  paperNotesFolder :: jstring
  paperPDFFolder :: jstring
  paperSystemPrompt :: jstring
  paperUserPrompt :: jstring

definition AVAILABLE_MODELS :: "CustomModel list" where
  "AVAILABLE_MODELS =
    [ \<lparr>mid = js ''gemini-2.5-flash'', mname = js ''Gemini 2.5 Flash'', mprovider = js ''gemini''\<rparr>,
      \<lparr>mid = js ''gemini-2.0-flash'', mname = js ''Gemini 2.0 Flash (Standard)'', mprovider = js ''gemini''\<rparr>,
      \<lparr>mid = js ''gpt-4.1-2025-04-14'', mname = js ''GPT-4.1'', mprovider = js ''openai''\<rparr>,
      \<lparr>mid = js ''gpt-4.1-mini-2025-04-14'', mname = js ''GPT-4.1 Mini'', mprovider = js ''openai''\<rparr>,
      \<lparr>mid = js ''o4-mini-2025-04-16'', mname = js ''o4-mini'', mprovider = js ''openai''\<rparr>,
      \<lparr>mid = js ''deepseek-chat'', mname = js ''DeepSeek-V3-0324'', mprovider = js ''deepseek''\<rparr> ]"

section \<open>AIService: provider and key resolution\<close>

text \<open>
  \<open>AVAILABLE_MODELS.find(m => m.id === this.settings.model)\<close>, then
  \<open>selectedModel?.provider || 'gemini'\<close>: an absent entry and an empty provider both
  give \<open>'gemini'\<close>.
\<close>

definition getModelProvider :: "LjoveSToolsSettings \<Rightarrow> jstring" where
  "getModelProvider s =
     (case find (\<lambda>m. mid m = model s) AVAILABLE_MODELS of
        None \<Rightarrow> js ''gemini''
      | Some m \<Rightarrow> (if mprovider m \<noteq> [] then mprovider m else js ''gemini''))"

definition getCurrentApiKey :: "LjoveSToolsSettings \<Rightarrow> jstring" where
  "getCurrentApiKey s =
     (let selectedModel = find (\<lambda>m. mid m = model s) AVAILABLE_MODELS;
          prov = (case selectedModel of
                    None \<Rightarrow> js ''gemini''
                  | Some m \<Rightarrow> (if mprovider m \<noteq> [] then mprovider m else js ''gemini''))
      in if prov = js ''openai'' then openaiApiKey s
         else if prov = js ''deepseek'' then deepseekApiKey s
         else geminiApiKey s)"

section \<open>Quiz session (QuizManager.ts)\<close>

text \<open>
  A \<open>TestQuestion\<close> as \<open>generateQuestionsWithAI\<close> builds it: the fields hold whatever the
  parsed response held (the TypeScript types are not checked at run time).
\<close>

record TestQuestion =
  question :: jsval
  options :: "jsval list"
  correctAnswer :: jsnum
  explanation :: jsval

record TestData =
  questions :: "TestQuestion list"
  currentQuestion :: nat
  selectedAnswer :: "nat option"
  answered :: bool
  correctAnswers :: nat

text \<open>
  \<open>selectAnswer(answerIndex)\<close> on \<open>this.testData\<close> (\<open>None\<close> is \<open>null\<close>). The two fields are
  written before the current question is read, so a \<open>currentQuestion\<close> outside the list
  raises a TypeError with the fields already written. The result is the new
  \<open>this.testData\<close> and the error raised, if any.
\<close>

definition selectAnswer :: "TestData option \<Rightarrow> nat \<Rightarrow> TestData option \<times> error option" where
  "selectAnswer testData answerIndex =
     (case testData of
        None \<Rightarrow> (None, None)
      | Some td \<Rightarrow>
          if answered td then (Some td, None)
          else
            let td1 = td\<lparr>selectedAnswer := Some answerIndex, answered := True\<rparr> in
            if currentQuestion td1 < length (questions td1) then
              let currentQ = questions td1 ! currentQuestion td1 in
              if Fin (of_nat answerIndex) = correctAnswer currentQ
              then (Some (td1\<lparr>correctAnswers := correctAnswers td1 + 1\<rparr>), None)
              else (Some td1, None)
            else (Some td1, Some TypeError))"

text \<open>\<open>nextQuestion()\<close>: the result is the new state and whether the results screen is shown.\<close>

definition nextQuestion :: "TestData option \<Rightarrow> TestData option \<times> bool" where
  "nextQuestion testData =
     (case testData of
        None \<Rightarrow> (None, False)
      | Some td \<Rightarrow>
          if int (currentQuestion td) < int (length (questions td)) - 1
          then (Some (td\<lparr>currentQuestion := currentQuestion td + 1,
                         selectedAnswer := None, answered := False\<rparr>), False)
          else (Some td, True))"

text \<open>
  \<open>Math.round(x)\<close>: the nearest integer, a tie going up. Doubles are taken as exact
  rationals here, so the rounding error of the double division and multiplication is
  not modelled.
\<close>

definition Math_round :: "rat \<Rightarrow> int" where
  "Math_round x = \<lfloor>x + 1 / 2\<rfloor>"

record TestResult =
  totalQuestions :: nat
  correctAnswersR :: nat
  percentage :: "int option"

text \<open>
  The \<open>result\<close> object of \<open>renderResultsScreen\<close>. With no question the quotient is NaN or
  an infinity and so is the percentage (\<open>None\<close>).
\<close>

definition renderResultsScreen :: "TestData \<Rightarrow> TestResult" where
  "renderResultsScreen td =
     \<lparr> totalQuestions = length (questions td),
       correctAnswersR = correctAnswers td,
       percentage =
         (if length (questions td) = 0 then None
          else Some (Math_round ((of_nat (correctAnswers td) / of_nat (length (questions td))) * 100))) \<rparr>"

section \<open>AIService: requests and the transport\<close>

text \<open>\<open>s.split(sep)\<close> for a non-empty separator: the pieces between its occurrences, left to
  right. \<open>skip\<close> counts the code units of a matched separator still to pass over, \<open>cur\<close>
  holds the current piece reversed.\<close>

fun split_aux :: "jstring \<Rightarrow> nat \<Rightarrow> jstring \<Rightarrow> jstring \<Rightarrow> jstring list" where
  "split_aux sep skip cur [] = [rev cur]"
| "split_aux sep (Suc k) cur (c # cs) = split_aux sep k cur cs"
| "split_aux sep 0 cur (c # cs) =
     (if starts_with sep (c # cs) then rev cur # split_aux sep (length sep - 1) [] cs
      else split_aux sep 0 (c # cur) cs)"

definition split :: "jstring \<Rightarrow> jstring \<Rightarrow> jstring list" where
  "split sep s = split_aux sep 0 [] s"

text \<open>The decimal digits of a number, as a template literal prints an HTTP status.\<close>

fun decimal :: "nat \<Rightarrow> jstring" where
  "decimal n = (if n < 10 then [48 + n] else decimal (n div 10) @ [48 + n mod 10])"

declare decimal.simps [simp del]

text \<open>\<open>toUpperCase()\<close> on the ASCII letters (provider ids are ASCII).\<close>

definition toUpperCase :: "jstring \<Rightarrow> jstring" where
  "toUpperCase s = map (\<lambda>c. if 97 \<le> c \<and> c \<le> 122 then c - 32 else c) s"

record ImageAttachment =
  img_id :: jstring
  img_name :: jstring
  img_data :: jstring
  img_size :: nat
  img_mimeType :: jstring

datatype content_item = TextItem jstring | ImageUrl jstring

datatype message_content = Plain jstring | Items "content_item list"

text \<open>
  An outbound call: a \<open>fetch\<close> of a chat-completions endpoint (its URL, the bearer key, the
  body's \<open>model\<close>, the one user message, whether \<open>stream: true\<close> is set and whether the
  abort signal is attached), a \<open>fetch\<close> of Gemini's \<open>generateContent\<close> (the model and the
  key, both part of the URL, and the prompt), or a call of the Gemini SDK (key, model, inline images, prompt,
  streaming or not).
\<close>

datatype request =
    ChatCompletions jstring jstring jstring message_content bool bool
  | GeminiGenerate jstring jstring jstring
  | GeminiSdk jstring jstring "(jstring \<times> jstring) list" jstring bool

text \<open>What an awaited promise gives: its value, or a rejection with the reason's message.\<close>

datatype 'a promise = Fulfilled 'a | Rejects jstring

text \<open>
  A response of \<open>fetch\<close>: \<open>ok\<close>, \<open>status\<close>, what \<open>response.json()\<close> gives, and the reads
  of the body's reader in order, each already decoded to text; after the last one the
  reader reports \<open>done\<close>. The flag of a read says that \<open>abort()\<close> was called on the
  request's controller while that read was pending (JavaScript runs one task at a time,
  so a Stop button can only act while the loop waits).
\<close>

record response =
  resp_ok :: bool
  resp_status :: nat
  resp_json :: "jsval promise"
  resp_reads :: "(bool \<times> jstring promise) list"

text \<open>
  The environment of one call: what \<open>fetch\<close> gives and whether \<open>abort()\<close> was called while
  it was pending; what the SDK's \<open>generateContent\<close> and \<open>response.text()\<close> give; what
  \<open>generateContentStream\<close> gives, a stream of chunk objects with the same flags.
\<close>

record world =
  fetch_reply :: "response promise"
  stop_during_fetch :: bool
  sdk_text :: "jstring promise"
  sdk_stream :: "(bool \<times> jsval promise) list promise"
  stop_during_sdk :: bool

definition openai_url :: jstring where
  "openai_url = js ''https://api.openai.com/v1/chat/completions''"

definition deepseek_url :: jstring where
  "deepseek_url = js ''https://api.deepseek.com/v1/chat/completions''"

text \<open>The \<open>content\<close> array of the OpenAI branch: the prompt, then one \<open>image_url\<close> per image;
  the message carries the bare prompt when there is no image.\<close>

definition openai_content :: "jstring \<Rightarrow> ImageAttachment list \<Rightarrow> message_content" where
  "openai_content prompt images =
     (let content = TextItem prompt # map (\<lambda>img. ImageUrl (img_data img)) images
      in if length content = 1 then Plain prompt else Items content)"

text \<open>The SDK's parts: each image as inline data, a data-URI prefix up to \<open>base64,\<close>
  stripped, then the prompt.\<close>

definition inline_data :: "ImageAttachment \<Rightarrow> jstring \<times> jstring" where
  "inline_data img =
     (let base64Data = img_data img
      in (if js_includes (js ''base64,'') base64Data
          then split (js ''base64,'') base64Data ! 1 else base64Data,
          img_mimeType img))"

text \<open>The \<open>catch\<close> of \<open>callAI\<close>: an error whose message contains \<open>503\<close> is replaced. The
  message of a runtime TypeError is the engine's; it is taken to hold no \<open>503\<close>.\<close>

fun error_message :: "error \<Rightarrow> jstring" where
  "error_message (Error m) = m"
| "error_message (Rejected m) = m"
| "error_message TypeError = []"

definition callAI_catch :: "jstring \<Rightarrow> error \<Rightarrow> error" where
  "callAI_catch prov e =
     (if js_includes (js ''503'') (error_message e)
      then Error (toUpperCase prov @
             js '' API is temporarily unavailable (503). Please try again in a few moments.'')
      else e)"

section \<open>AIService: the Gemini response parsers\<close>

text \<open>\<open>if (part && typeof part.text === 'string') textContent += part.text\<close>\<close>

definition part_text :: "jsval \<Rightarrow> jstring" where
  "part_text part =
     (if truthy part then (case get_prop part (js ''text'') of Inr (JStr t) \<Rightarrow> t | _ \<Rightarrow> [])
      else [])"

text \<open>One round of the loop over the candidates: the text the candidate adds, or the
  TypeError of reading \<open>candidate.content\<close> on \<open>null\<close>.\<close>

definition candidate_text :: "jsval \<Rightarrow> error + jstring" where
  "candidate_text candidate =
     (case get_prop candidate (js ''content'') of
        Inl e \<Rightarrow> Inl e
      | Inr content \<Rightarrow>
          if \<not> truthy content then Inr []
          else (case get_prop content (js ''parts'') of
                  Inl e \<Rightarrow> Inl e
                | Inr (JArr parts) \<Rightarrow> Inr (concat (map part_text parts))
                | Inr _ \<Rightarrow> Inr []))"

fun candidates_loop :: "jsval list \<Rightarrow> jstring \<Rightarrow> error + jstring" where
  "candidates_loop [] textContent = Inr textContent"
| "candidates_loop (candidate # rest) textContent =
     (case candidate_text candidate of
        Inl e \<Rightarrow> Inl e
      | Inr t \<Rightarrow> candidates_loop rest (textContent @ t))"

definition extractTextFromGeminiChunk :: "jsval \<Rightarrow> error + jstring" where
  "extractTextFromGeminiChunk chunk =
     (case get_prop chunk (js ''candidates'') of
        Inl e \<Rightarrow> Inl e
      | Inr (JArr candidates) \<Rightarrow> candidates_loop candidates []
      | Inr _ \<Rightarrow> Inr [])"

definition extractTextFromGeminiResponse :: "jsval \<Rightarrow> error + jstring" where
  "extractTextFromGeminiResponse data =
     (case get_prop data (js ''candidates'') of
        Inl e \<Rightarrow> Inl e
      | Inr (JArr candidates) \<Rightarrow>
          (case candidates_loop candidates [] of
             Inl e \<Rightarrow> Inl e
           | Inr textContent \<Rightarrow>
               if textContent = []
               then Inl (Error (js ''Invalid response format from Gemini API: no text content found''))
               else Inr textContent)
      | Inr _ \<Rightarrow> Inl (Error (js ''Invalid response format from Gemini API: no candidates'')))"

section \<open>AIService.callAI\<close>

text \<open>The one request \<open>callAI\<close> sends: the branch is chosen by the \<open>provider\<close> argument
  alone, the model is \<open>this.settings.model\<close>.\<close>

definition callAI_request ::
  "LjoveSToolsSettings \<Rightarrow> jstring \<Rightarrow> jstring \<Rightarrow> jstring \<Rightarrow> ImageAttachment list \<Rightarrow> request" where
  "callAI_request st prompt prov apiKey images =
     (if prov = js ''openai''
      then ChatCompletions openai_url apiKey (model st) (openai_content prompt images) False False
      else if prov = js ''deepseek''
      then ChatCompletions deepseek_url apiKey (model st) (Plain prompt) False False
      else if images \<noteq> []
      then GeminiSdk apiKey (model st) (map inline_data images) prompt False
      else GeminiGenerate (model st) apiKey prompt)"

text \<open>\<open>if (!data.choices || !data.choices[0] || !data.choices[0].message) throw ...;
  return data.choices[0].message.content\<close>\<close>

definition openai_message_content :: "jsval \<Rightarrow> error + jsval" where
  "openai_message_content data =
     (case get_prop data (js ''choices'') of
        Inl e \<Rightarrow> Inl e
      | Inr choices \<Rightarrow>
          if \<not> truthy choices \<or> \<not> truthy (get_index0 choices)
          then Inl (Error (js ''Invalid response format from OpenAI/DeepSeek API''))
          else (case get_prop (get_index0 choices) (js ''message'') of
                  Inl e \<Rightarrow> Inl e
                | Inr message \<Rightarrow>
                    if \<not> truthy message
                    then Inl (Error (js ''Invalid response format from OpenAI/DeepSeek API''))
                    else get_prop message (js ''content'')))"

definition gemini_data_text :: "jsval \<Rightarrow> error + jsval" where
  "gemini_data_text data =
     (case get_prop data (js ''candidates'') of
        Inl e \<Rightarrow> Inl e
      | Inr (JArr candidates) \<Rightarrow> map_sum (\<lambda>e. e) JStr (extractTextFromGeminiResponse data)
      | Inr _ \<Rightarrow> Inl (Error (js ''Invalid response format from Gemini API'')))"

text \<open>The body of the \<open>try\<close>.\<close>

definition callAI_try ::
  "jstring \<Rightarrow> ImageAttachment list \<Rightarrow> world \<Rightarrow> error + jsval" where
  "callAI_try prov images w =
     (if prov \<noteq> js ''openai'' \<and> prov \<noteq> js ''deepseek'' \<and> images \<noteq> []
      then (case sdk_text w of Rejects m \<Rightarrow> Inl (Rejected m) | Fulfilled t \<Rightarrow> Inr (JStr t))
      else
        (case fetch_reply w of
           Rejects m \<Rightarrow> Inl (Rejected m)
         | Fulfilled r \<Rightarrow>
             if \<not> resp_ok r then Inl (Error (js ''API Error '' @ decimal (resp_status r)))
             else (case resp_json r of
                     Rejects m \<Rightarrow> Inl (Rejected m)
                   | Fulfilled data \<Rightarrow>
                       if prov = js ''openai'' \<or> prov = js ''deepseek''
                       then openai_message_content data
                       else gemini_data_text data)))"

text \<open>\<open>callAI\<close>: the requests it sent, in order, and what it returns or raises.\<close>

definition callAI ::
  "LjoveSToolsSettings \<Rightarrow> jstring \<Rightarrow> jstring \<Rightarrow> jstring \<Rightarrow> ImageAttachment list \<Rightarrow> world
     \<Rightarrow> request list \<times> (error + jsval)" where
  "callAI st prompt prov apiKey images w =
     ([callAI_request st prompt prov apiKey images],
      (case callAI_try prov images w of
         Inl e \<Rightarrow> Inl (callAI_catch prov e)
       | Inr v \<Rightarrow> Inr v))"

section \<open>AIService.streamAI\<close>

text \<open>\<open>parsed.choices?.[0]?.delta?.content\<close>: only the first read can raise.\<close>

definition delta_content :: "jsval \<Rightarrow> error + jsval" where
  "delta_content parsed =
     (case get_prop parsed (js ''choices'') of
        Inl e \<Rightarrow> Inl e
      | Inr choices \<Rightarrow>
          Inr (opt_prop (opt_prop (opt_index0 choices) (js ''delta'')) (js ''content'')))"

text \<open>
  The text that \<open>fullResponse += content\<close> appends. For a string it is the string. For any
  other truthy value it is what JavaScript's conversion to a string gives, and \<open>None\<close> when
  that conversion (or the one of \<open>content.length\<close> in the log line before it) raises;
  the conversion is the parameter \<open>coerce\<close>.
\<close>

definition appended_text :: "(jsval \<Rightarrow> jstring option) \<Rightarrow> jsval \<Rightarrow> jstring option" where
  "appended_text coerce content = (case content of JStr t \<Rightarrow> Some t | _ \<Rightarrow> coerce content)"

text \<open>
  One round of \<open>for (const line of lines)\<close> on the state \<open>(fullResponse, calls)\<close>, where
  \<open>calls\<close> lists the arguments \<open>onChunk\<close> was called with so far. \<open>parse\<close> is \<open>JSON.parse\<close>
  (\<open>None\<close> when it raises). Whatever is raised inside the \<open>try\<close> is swallowed by its
  \<open>catch\<close>.
\<close>

definition process_line ::
  "(jstring \<Rightarrow> jsval option) \<Rightarrow> (jsval \<Rightarrow> jstring option) \<Rightarrow> jstring
     \<Rightarrow> jstring \<times> jsval list \<Rightarrow> jstring \<times> jsval list" where
  "process_line parse coerce line st =
     (if starts_with (js ''data: '') line then
        let data = drop 6 line in
        if data = js ''[DONE]'' then st
        else (case parse data of
                None \<Rightarrow> st
              | Some parsed \<Rightarrow>
                  (case delta_content parsed of
                     Inl e \<Rightarrow> st
                   | Inr content \<Rightarrow>
                       if truthy content then
                         (case appended_text coerce content of
                            None \<Rightarrow> st
                          | Some t \<Rightarrow> (fst st @ t, snd st @ [content]))
                       else st))
      else st)"

text \<open>
  The \<open>while (true)\<close> loop. \<open>has_ctl\<close>: an abort controller was passed; \<open>aborted\<close>: its
  signal is aborted at the check on top of this round. The reads left are \<open>evs\<close>; when
  none is left the reader reports \<open>done\<close>.
\<close>

fun read_loop ::
  "(jstring \<Rightarrow> jsval option) \<Rightarrow> (jsval \<Rightarrow> jstring option) \<Rightarrow> bool \<Rightarrow> bool
     \<Rightarrow> (bool \<times> jstring promise) list \<Rightarrow> jstring \<times> jsval list
     \<Rightarrow> jsval list \<times> (error + jstring)" where
  "read_loop parse coerce has_ctl aborted [] st =
     (snd st, Inr (fst st))"
| "read_loop parse coerce has_ctl aborted ((stop, rd) # evs) st =
     (if has_ctl \<and> aborted then (snd st, Inr (fst st))
      else (case rd of
              Rejects m \<Rightarrow> (snd st, Inl (Rejected m))
            | Fulfilled chunk \<Rightarrow>
                read_loop parse coerce has_ctl (aborted \<or> stop) evs
                  (fold (process_line parse coerce) (split [10] chunk) st)))"

text \<open>
  \<open>streamGeminiWithFiles\<close>: the \<open>for await\<close> over the SDK's stream. The signal is read
  after a chunk has arrived and before it is used.
\<close>

fun gemini_loop ::
  "bool \<Rightarrow> bool \<Rightarrow> (bool \<times> jsval promise) list \<Rightarrow> jstring \<times> jsval list
     \<Rightarrow> jsval list \<times> (error + jstring)" where
  "gemini_loop has_ctl aborted [] st = (snd st, Inr (fst st))"
| "gemini_loop has_ctl aborted ((stop, rd) # evs) st =
     (case rd of
        Rejects m \<Rightarrow> (snd st, Inl (Rejected m))
      | Fulfilled chunk \<Rightarrow>
          if has_ctl \<and> (aborted \<or> stop) then (snd st, Inr (fst st))
          else (case extractTextFromGeminiChunk chunk of
                  Inl e \<Rightarrow> (snd st, Inl e)
                | Inr textChunk \<Rightarrow>
                    gemini_loop has_ctl (aborted \<or> stop) evs
                      (if textChunk \<noteq> [] then (fst st @ textChunk, snd st @ [JStr textChunk])
                       else st)))"

definition streamGeminiWithFiles ::
  "bool option \<Rightarrow> world \<Rightarrow> jsval list \<times> (error + jstring)" where
  "streamGeminiWithFiles ctl w =
     (case sdk_stream w of
        Rejects m \<Rightarrow> ([], Inl (Rejected m))
      | Fulfilled evs \<Rightarrow>
          gemini_loop (ctl \<noteq> None) (ctl = Some True \<or> stop_during_sdk w) evs ([], []))"

definition streamAI_request ::
  "LjoveSToolsSettings \<Rightarrow> jstring \<Rightarrow> jstring \<Rightarrow> jstring \<Rightarrow> ImageAttachment list \<Rightarrow> bool option
     \<Rightarrow> request" where
  "streamAI_request st prompt prov apiKey images ctl =
     (if prov = js ''openai''
      then ChatCompletions openai_url apiKey (model st) (openai_content prompt images) True (ctl \<noteq> None)
      else if prov = js ''deepseek''
      then ChatCompletions deepseek_url apiKey (model st) (Plain prompt) True (ctl \<noteq> None)
      else GeminiSdk apiKey (model st) (map inline_data images) prompt True)"

text \<open>
  \<open>streamAI\<close>: the arguments \<open>onChunk\<close> was called with, in order, and what the call
  returns or raises. \<open>ctl\<close> is the abort controller passed (\<open>None\<close>: none), with the state
  of its signal at the call.
\<close>

definition streamAI ::
  "(jstring \<Rightarrow> jsval option) \<Rightarrow> (jsval \<Rightarrow> jstring option) \<Rightarrow> jstring \<Rightarrow> bool option \<Rightarrow> world
     \<Rightarrow> jsval list \<times> (error + jstring)" where
  "streamAI parse coerce prov ctl w =
     (if prov = js ''openai'' \<or> prov = js ''deepseek'' then
        (case fetch_reply w of
           Rejects m \<Rightarrow> ([], Inl (Rejected m))
         | Fulfilled r \<Rightarrow>
             if \<not> resp_ok r then ([], Inl (Error (js ''API Error '' @ decimal (resp_status r))))
             else read_loop parse coerce (ctl \<noteq> None) (ctl = Some True \<or> stop_during_fetch w)
                    (resp_reads r) ([], []))
      else streamGeminiWithFiles ctl w)"

text \<open>
  The streaming path in the words of its description: the argument of the one \<open>onChunk\<close>
  call a line causes, if it causes one. Only a line with the prefix \<open>data: \<close> counts; the
  payload \<open>[DONE]\<close> and a payload that does not parse are passed over; otherwise the
  call is made with \<open>choices[0].delta.content\<close> when that is truthy (a non-empty string,
  in a well-formed event).
\<close>

definition line_chunk ::
  "(jstring \<Rightarrow> jsval option) \<Rightarrow> (jsval \<Rightarrow> jstring option) \<Rightarrow> jstring \<Rightarrow> jsval option" where
  "line_chunk parse coerce line =
     (if \<not> starts_with (js ''data: '') line \<or> drop 6 line = js ''[DONE]'' then None
      else (case parse (drop 6 line) of
              None \<Rightarrow> None
            | Some parsed \<Rightarrow>
                (case delta_content parsed of
                   Inl e \<Rightarrow> None
                 | Inr content \<Rightarrow>
                     if truthy content \<and> appended_text coerce content \<noteq> None
                     then Some content else None)))"

definition text_of :: "(jsval \<Rightarrow> jstring option) \<Rightarrow> jsval \<Rightarrow> jstring" where
  "text_of coerce c = (case appended_text coerce c of Some t \<Rightarrow> t | None \<Rightarrow> [])"

text \<open>The \<open>onChunk\<close> calls of a sequence of decoded body chunks, line by line.\<close>

definition chunk_calls ::
  "(jstring \<Rightarrow> jsval option) \<Rightarrow> (jsval \<Rightarrow> jstring option) \<Rightarrow> jstring list \<Rightarrow> jsval list" where
  "chunk_calls parse coerce chunks =
     List.map_filter (line_chunk parse coerce) (concat (map (split [10]) chunks))"

text \<open>
  \<open>JSON.parse\<close> on the two payloads the examples below use, and on nothing else:
  \<open>{"choices":[{"delta":{"content":"Hel"}}]}\<close> and the same with \<open>lo\<close>.
\<close>

definition delta_event :: "jstring \<Rightarrow> jsval" where
  "delta_event t =
     JObj [(js ''choices'', JArr [JObj [(js ''delta'', JObj [(js ''content'', JStr t)])]])]"

definition parse_events :: "jstring \<Rightarrow> jsval option" where
  "parse_events s =
     (if s = js ''{\"choices\":[{\"delta\":{\"content\":\"Hel\"}}]}'' then Some (delta_event (js ''Hel''))
      else if s = js ''{\"choices\":[{\"delta\":{\"content\":\"lo\"}}]}'' then Some (delta_event (js ''lo''))
      else None)"

text \<open>
  Example environments: a successful \<open>fetch\<close> whose body delivers the given reads, and an
  SDK stream that delivers the given chunk objects.
\<close>

definition http_world :: "(bool \<times> jstring promise) list \<Rightarrow> world" where
  "http_world rds =
     \<lparr> fetch_reply = Fulfilled \<lparr> resp_ok = True, resp_status = 200, resp_json = Rejects [],
                                   resp_reads = rds \<rparr>,
       stop_during_fetch = False, sdk_text = Rejects [], sdk_stream = Rejects [],
       stop_during_sdk = False \<rparr>"


definition hello_chunk1 :: jstring where
  "hello_chunk1 =
     js ''data: {\"choices\":[{\"delta\":{\"content\":\"Hel\"}}]}\<newline>\<newline>data: {\"cho\<newline>''"

definition hello_chunk2 :: jstring where
  "hello_chunk2 =
     js ''data: {\"choices\":[{\"delta\":{\"content\":\"lo\"}}]}\<newline>data: [DONE]\<newline>''"

definition hello_chunks :: "jstring list" where
  "hello_chunks = [hello_chunk1, hello_chunk2]"


text \<open>The text of a candidate that is an object (or any value but \<open>null\<close> and \<open>undefined\<close>),
  as the description has it: the texts of the parts of its \<open>content.parts\<close> array, nothing
  when it has none.\<close>

definition candidate_parts_text :: "jsval \<Rightarrow> jstring" where
  "candidate_parts_text candidate =
     (case opt_prop (opt_prop candidate (js ''content'')) (js ''parts'') of
        JArr parts \<Rightarrow> concat (map part_text parts)
      | _ \<Rightarrow> [])"

text \<open>An environment in which \<open>fetch\<close> answers 200 with the given JSON body.\<close>

definition json_world :: "jsval \<Rightarrow> world" where
  "json_world data =
     \<lparr> fetch_reply = Fulfilled \<lparr> resp_ok = True, resp_status = 200, resp_json = Fulfilled data,
                                   resp_reads = [] \<rparr>,
       stop_during_fetch = False, sdk_text = Rejects [], sdk_stream = Rejects [],
       stop_during_sdk = False \<rparr>"

text \<open>The provider the built-in catalog records for a model id, if it lists the id.\<close>

definition catalog_provider :: "jstring \<Rightarrow> jstring option" where
  "catalog_provider m = map_option mprovider (find (\<lambda>e. mid e = m) AVAILABLE_MODELS)"

text \<open>Example settings: every key set, a model id that the catalog does not list.\<close>

definition custom_settings :: LjoveSToolsSettings where
  "custom_settings =
     \<lparr> provider = js ''openai'', geminiApiKey = js ''G-KEY'', openaiApiKey = js ''O-KEY'',
       deepseekApiKey = js ''D-KEY'', model = js ''my-gpt'', instructionPrompt = [],
       customModels = [], paperNotesFolder = [], paperPDFFolder = [],
       paperSystemPrompt = [], paperUserPrompt = [] \<rparr>"

section \<open>Chat (ChatManager)\<close>

text \<open>The fields of a \<open>ChatMessage\<close> that \<open>generateChatResponse\<close> writes.\<close>

record ChatMessage =
  msg_id :: jstring
  msg_role :: jstring
  msg_content :: jstring
  msg_timestamp :: nat

text \<open>
  The message array holds references. \<open>generateChatResponse\<close> keeps its
  \<open>assistantMessage\<close> object in a local variable, pushes it into the array and goes on
  writing its \<open>content\<close>: an element of the array is a message of its own (\<open>Held\<close>) or
  that object (\<open>InFlight\<close>), whose fields are read when the array is read.
\<close>

datatype msg_ref = Held ChatMessage | InFlight

record chat =
  chat_messages :: "msg_ref list"
  assistantMessage :: ChatMessage
  isFirstChunk :: bool

definition ref_id :: "ChatMessage \<Rightarrow> msg_ref \<Rightarrow> jstring" where
  "ref_id a r = (case r of Held m \<Rightarrow> msg_id m | InFlight \<Rightarrow> msg_id a)"

definition without_id :: "ChatMessage \<Rightarrow> jstring \<Rightarrow> msg_ref list \<Rightarrow> msg_ref list" where
  "without_id a i refs = filter (\<lambda>r. ref_id a r \<noteq> i) refs"

text \<open>
  The callback passed as \<open>onChunk\<close>. Its first statement logs \<open>chunk.substring(0, 50)\<close>:
  for an argument that is not a string this raises a TypeError before anything is
  written, and the \<open>catch\<close> around the call in \<open>streamAI\<close> swallows it.
\<close>

definition chat_onChunk :: "chat \<Rightarrow> jsval \<Rightarrow> chat" where
  "chat_onChunk c chunk =
     (case chunk of
        JStr t \<Rightarrow>
          (let c1 = (if isFirstChunk c
                     then c\<lparr>isFirstChunk := False,
                            chat_messages :=
                              without_id (assistantMessage c) (js ''typing'') (chat_messages c) @ [InFlight]\<rparr>
                     else c)
           in c1\<lparr>assistantMessage :=
                   (assistantMessage c1)\<lparr>msg_content := msg_content (assistantMessage c1) @ t\<rparr>\<rparr>)
      | _ \<Rightarrow> c)"

record ChatManager =
  currentChatSession :: "ChatMessage list option"
  isRequestInFlight :: bool
  isStreamingChat :: bool
  currentAbortController :: "bool option"

text \<open>
  \<open>stopChatResponse\<close>: \<open>abort()\<close> on the controller of the request in flight (in a
  \<open>world\<close>, the flag of the read that is pending at that moment), then the fields are
  reset.
\<close>

definition stopChatResponse :: "ChatManager \<Rightarrow> ChatManager" where
  "stopChatResponse mgr =
     (case currentAbortController mgr of
        None \<Rightarrow> mgr
      | Some aborted \<Rightarrow>
          mgr\<lparr>currentAbortController := None, isRequestInFlight := False, isStreamingChat := False\<rparr>)"

definition error_reply :: jstring where
  "error_reply = js ''Sorry, I encountered an error processing your message. Please try again.''"

text \<open>
  \<open>generateChatResponse\<close> from the point where the prompt has been built: \<open>now\<close> and
  \<open>later\<close> are the values of \<open>Date.now()\<close> when the assistant message and the error
  message are made. The callback does not act on \<open>streamAI\<close>, so its calls are replayed
  on the chat state in order; then come the branches after the \<open>await\<close>, the \<open>catch\<close>
  and the \<open>finally\<close>.
\<close>

definition generateChatResponse ::
  "(jstring \<Rightarrow> jsval option) \<Rightarrow> (jsval \<Rightarrow> jstring option) \<Rightarrow> jstring \<Rightarrow> nat \<Rightarrow> nat \<Rightarrow> world
     \<Rightarrow> ChatManager \<Rightarrow> ChatManager" where
  "generateChatResponse parse coerce prov now later w mgr =
     (case currentChatSession mgr of
        None \<Rightarrow> mgr
      | Some msgs \<Rightarrow>
          let typingMessage = \<lparr>msg_id = js ''typing'', msg_role = js ''assistant'',
                                msg_content = [], msg_timestamp = now\<rparr>;
              assistant = \<lparr>msg_id = decimal now @ js ''_assistant'', msg_role = js ''assistant'',
                            msg_content = [], msg_timestamp = now\<rparr>;
              c0 = \<lparr>chat_messages =
                      map Held (filter (\<lambda>m. msg_id m \<noteq> js ''typing'') msgs) @ [Held typingMessage],
                    assistantMessage = assistant, isFirstChunk = True\<rparr>;
              run = streamAI parse coerce prov (Some False) w;
              c1 = foldl chat_onChunk c0 (fst run);
              c2 = (case snd run of
                      Inr fullResponse \<Rightarrow>
                        if isFirstChunk c1 \<and> fullResponse \<noteq> []
                        then c1\<lparr>chat_messages :=
                                   without_id (assistantMessage c1) (js ''typing'') (chat_messages c1)
                                   @ [InFlight],
                                 assistantMessage := (assistantMessage c1)\<lparr>msg_content := fullResponse\<rparr>\<rparr>
                        else if \<not> isFirstChunk c1
                        then c1\<lparr>assistantMessage := (assistantMessage c1)
                                   \<lparr>msg_content := (if fullResponse \<noteq> [] then fullResponse
                                                     else msg_content (assistantMessage c1))\<rparr>\<rparr>
                        else c1
                    | Inl e \<Rightarrow>
                        c1\<lparr>chat_messages :=
                              without_id (assistantMessage c1) (msg_id (assistantMessage c1)) (chat_messages c1)
                              @ [Held \<lparr>msg_id = decimal later @ js ''_error'', msg_role = js ''assistant'',
                                        msg_content = error_reply, msg_timestamp = later\<rparr>]\<rparr>)
          in mgr\<lparr>currentChatSession :=
                   Some (map (\<lambda>r. case r of Held m \<Rightarrow> m | InFlight \<Rightarrow> assistantMessage c2)
                           (without_id (assistantMessage c2) (js ''typing'') (chat_messages c2))),
                 isRequestInFlight := False, isStreamingChat := False,
                 currentAbortController := None\<rparr>)"

text \<open>An example: a session that holds one user message.\<close>

definition user_hi :: ChatMessage where
  "user_hi = \<lparr>msg_id = js ''1700000000000'', msg_role = js ''user'', msg_content = js ''Hi'',
              msg_timestamp = 1700000000000\<rparr>"

definition chatting :: ChatManager where
  "chatting = \<lparr>currentChatSession = Some [user_hi], isRequestInFlight = False,
               isStreamingChat = False, currentAbortController = None\<rparr>"

section \<open>Regular expressions (as MathUtils uses them)\<close>

text \<open>
  The character classes of the patterns: a literal code unit, \<open>[a-zA-Z]\<close>, \<open>\<backslash>w\<close>, \<open>\<backslash>s\<close>,
  \<open>\<backslash>d\<close>, \<open>[a-zA-Z0-9]\<close>, a negated set and a set. Without the \<open>u\<close> and \<open>i\<close> flags,
  \<open>\<backslash>w\<close> is \<open>[A-Za-z0-9_]\<close>, \<open>\<backslash>d\<close> is \<open>[0-9]\<close>, and \<open>\<backslash>s\<close> is the white space and line
  terminators of ECMAScript.
\<close>

datatype cclass = Lit nat | Alpha | Word | Space | Digit | AlphaNum | NotOf "nat list" | OneOf "nat list"

definition is_alpha :: "nat \<Rightarrow> bool" where
  "is_alpha c = ((65 \<le> c \<and> c \<le> 90) \<or> (97 \<le> c \<and> c \<le> 122))"

definition is_digit :: "nat \<Rightarrow> bool" where
  "is_digit c = (48 \<le> c \<and> c \<le> 57)"

definition is_word :: "nat \<Rightarrow> bool" where
  "is_word c = (is_alpha c \<or> is_digit c \<or> c = 95)"

definition is_space :: "nat \<Rightarrow> bool" where
  "is_space c = (c \<in> set [9, 10, 11, 12, 13, 32, 160, 5760, 8232, 8233, 8239, 8287, 12288, 65279]
                 \<or> (8192 \<le> c \<and> c \<le> 8202))"

fun in_class :: "cclass \<Rightarrow> nat \<Rightarrow> bool" where
  "in_class (Lit x) c = (c = x)"
| "in_class Alpha c = is_alpha c"
| "in_class Word c = is_word c"
| "in_class Space c = is_space c"
| "in_class Digit c = is_digit c"
| "in_class AlphaNum c = (is_alpha c \<or> is_digit c)"
| "in_class (NotOf xs) c = (c \<notin> set xs)"
| "in_class (OneOf xs) c = (c \<in> set xs)"

datatype rx = Eps | Ch cclass | Seq rx rx | Alt rx rx | Star rx | Plus rx | WordBoundary

definition word_at :: "jstring \<Rightarrow> nat \<Rightarrow> bool" where
  "word_at t i = (i < length t \<and> is_word (t ! i))"

fun rx_rank :: "rx \<Rightarrow> nat" where
  "rx_rank Eps = 0"
| "rx_rank (Ch c) = 0"
| "rx_rank WordBoundary = 0"
| "rx_rank (Seq a b) = rx_rank a + rx_rank b + 1"
| "rx_rank (Alt a b) = rx_rank a + rx_rank b + 1"
| "rx_rank (Star a) = rx_rank a + 1"
| "rx_rank (Plus a) = rx_rank a + 2"

text \<open>
  The backtracking matcher: \<open>ends r t i\<close> lists the positions where a match of \<open>r\<close> that
  starts at \<open>i\<close> in \<open>t\<close> can end, in the order in which the engine tries them (the left
  alternative first, a greedy quantifier's longer run first, an iteration that consumes
  nothing refused). The match the engine reports is the first of the list.
\<close>

function ends :: "rx \<Rightarrow> jstring \<Rightarrow> nat \<Rightarrow> nat list" where
  "ends Eps t i = [i]"
| "ends (Ch c) t i = (if i < length t \<and> in_class c (t ! i) then [i + 1] else [])"
| "ends WordBoundary t i =
     (if (0 < i \<and> word_at t (i - 1)) \<noteq> word_at t i then [i] else [])"
| "ends (Seq a b) t i = concat (map (\<lambda>j. ends b t j) (ends a t i))"
| "ends (Alt a b) t i = ends a t i @ ends b t i"
| "ends (Star a) t i =
     concat (map (\<lambda>j. if i < j \<and> j \<le> length t then ends (Star a) t j else []) (ends a t i)) @ [i]"
| "ends (Plus a) t i =
     concat (map (\<lambda>j. ends (Star a) t j) (ends a t i))"
  by pat_completeness auto
termination
  by (relation "measures [\<lambda>(r, t, i). rx_rank r, \<lambda>(r, t, i). length t - i]") auto

text \<open>\<open>regex.test(t)\<close> for a regex without the \<open>g\<close> flag: the start positions are tried
  from left to right, the end of the string included.\<close>

function test_from :: "rx \<Rightarrow> jstring \<Rightarrow> nat \<Rightarrow> bool" where
  "test_from r t i =
     (if ends r t i \<noteq> [] then True
      else if i < length t then test_from r t (i + 1)
      else False)"
  by pat_completeness auto
termination
  by (relation "measure (\<lambda>(r, t, i). length t - i)") auto

declare test_from.simps [simp del]

definition rx_test :: "rx \<Rightarrow> jstring \<Rightarrow> bool" where
  "rx_test r t = test_from r t 0"

text \<open>
  \<open>t.replace(regex, fn)\<close> for a regex with the \<open>g\<close> flag, from position \<open>i\<close> on: the
  leftmost match is replaced by \<open>fn(match)\<close> and the scan goes on behind it; after an
  empty match the next code unit is copied.
\<close>

function replace_from :: "rx \<Rightarrow> (jstring \<Rightarrow> jstring) \<Rightarrow> jstring \<Rightarrow> nat \<Rightarrow> jstring" where
  "replace_from r fn t i =
     (case ends r t i of
        [] \<Rightarrow> (if i < length t then t ! i # replace_from r fn t (i + 1) else [])
      | j # others \<Rightarrow>
          if i < j \<and> j \<le> length t then fn (take (j - i) (drop i t)) @ replace_from r fn t j
          else fn [] @ (if i < length t then t ! i # replace_from r fn t (i + 1) else []))"
  by pat_completeness auto
termination
  by (relation "measure (\<lambda>(r, fn, t, i). length t - i)") auto

declare replace_from.simps [simp del]

definition replace_all :: "rx \<Rightarrow> (jstring \<Rightarrow> jstring) \<Rightarrow> jstring \<Rightarrow> jstring" where
  "replace_all r fn t = replace_from r fn t 0"

text \<open>A literal string, a sequence and an alternation of several patterns.\<close>

fun seqs :: "rx list \<Rightarrow> rx" where
  "seqs [] = Eps"
| "seqs [r] = r"
| "seqs (r # rs) = Seq r (seqs rs)"

fun alts :: "rx list \<Rightarrow> rx" where
  "alts [] = Eps"
| "alts [r] = r"
| "alts (r # rs) = Alt r (alts rs)"

definition lit :: "jstring \<Rightarrow> rx" where
  "lit s = seqs (map (\<lambda>c. Ch (Lit c)) s)"

section \<open>MathUtils.ensureMathDelimiters\<close>

text \<open>The test for block mathematics: \<open>\<backslash>begin{\<close>, one of the twelve environment names,
  and \<open>}\<close>.\<close>

definition block_math_rx :: rx where
  "block_math_rx =
     seqs [lit (92 # js ''begin{''),
           alts (map (\<lambda>s. lit (js s))
             [''matrix'', ''pmatrix'', ''bmatrix'', ''vmatrix'', ''Vmatrix'', ''smallmatrix'',
              ''cases'', ''align'', ''equation'', ''split'', ''gather'', ''multline'']),
           Ch (Lit 125)]"

text \<open>The twelve \<open>mathPatterns\<close>, in the order of the source. The code units 92, 94, 95,
  123, 125 and 47 are the backslash, \<open>^\<close>, \<open>_\<close>, the braces and the slash.\<close>

definition pattern_sup_braces :: rx where
  \<comment> \<open>\<open>\<backslash>b([a-zA-Z][\<backslash>w]*)\<backslash>s*\<backslash>^\<backslash>s*\<backslash>{[^}]+\<backslash>}\<close>\<close>
  "pattern_sup_braces =
     seqs [WordBoundary, Ch Alpha, Star (Ch Word), Star (Ch Space), Ch (Lit 94), Star (Ch Space),
           Ch (Lit 123), Plus (Ch (NotOf [125])), Ch (Lit 125)]"

definition pattern_sup :: rx where
  \<comment> \<open>\<open>\<backslash>b([a-zA-Z][\<backslash>w]*)\<backslash>s*\<backslash>^\<backslash>s*\<backslash>w+\<close>\<close>
  "pattern_sup =
     seqs [WordBoundary, Ch Alpha, Star (Ch Word), Star (Ch Space), Ch (Lit 94), Star (Ch Space),
           Plus (Ch Word)]"

definition pattern_sub_braces :: rx where
  \<comment> \<open>\<open>\<backslash>b([a-zA-Z][\<backslash>w]*)\<backslash>s*_\<backslash>s*\<backslash>{[^}]+\<backslash>}\<close>\<close>
  "pattern_sub_braces =
     seqs [WordBoundary, Ch Alpha, Star (Ch Word), Star (Ch Space), Ch (Lit 95), Star (Ch Space),
           Ch (Lit 123), Plus (Ch (NotOf [125])), Ch (Lit 125)]"

definition pattern_sub :: rx where
  \<comment> \<open>\<open>\<backslash>b([a-zA-Z][\<backslash>w]*)\<backslash>s*_\<backslash>s*\<backslash>w+\<close>\<close>
  "pattern_sub =
     seqs [WordBoundary, Ch Alpha, Star (Ch Word), Star (Ch Space), Ch (Lit 95), Star (Ch Space),
           Plus (Ch Word)]"

definition pattern_command_arg :: rx where
  \<comment> \<open>\<open>\<backslash>\<backslash>[a-zA-Z]+\<backslash>{[^}]*\<backslash>}\<close>\<close>
  "pattern_command_arg =
     seqs [Ch (Lit 92), Plus (Ch Alpha), Ch (Lit 123), Star (Ch (NotOf [125])), Ch (Lit 125)]"

definition pattern_command :: rx where
  \<comment> \<open>\<open>\<backslash>\<backslash>[a-zA-Z]+\<close>\<close>
  "pattern_command = seqs [Ch (Lit 92), Plus (Ch Alpha)]"

definition pattern_mathbb :: rx where
  \<comment> \<open>\<open>\<backslash>\<backslash>mathbb\<backslash>{[^}]+\<backslash>}\<close>\<close>
  "pattern_mathbb = seqs [lit (92 # js ''mathbb{''), Plus (Ch (NotOf [125])), Ch (Lit 125)]"

definition pattern_mathcal :: rx where
  \<comment> \<open>\<open>\<backslash>\<backslash>mathcal\<backslash>{[^}]+\<backslash>}\<close>\<close>
  "pattern_mathcal = seqs [lit (92 # js ''mathcal{''), Plus (Ch (NotOf [125])), Ch (Lit 125)]"

definition pattern_mathrm :: rx where
  \<comment> \<open>\<open>\<backslash>\<backslash>mathrm\<backslash>{[^}]+\<backslash>}\<close>\<close>
  "pattern_mathrm = seqs [lit (92 # js ''mathrm{''), Plus (Ch (NotOf [125])), Ch (Lit 125)]"

definition pattern_fraction :: rx where
  \<comment> \<open>\<open>\<backslash>d+\<backslash>/\<backslash>d+\<close>\<close>
  "pattern_fraction = seqs [Plus (Ch Digit), Ch (Lit 47), Plus (Ch Digit)]"

definition pattern_symbols :: rx where
  \<comment> \<open>the alternation of the eighteen symbols U+222B, U+2211, U+220F, U+2202, U+2207, U+221E,
      U+00B1, U+2264, U+2265, U+2260, U+2248, U+2208, U+2209, U+2286, U+2287, U+222A, U+2229,
      U+2205\<close>
  "pattern_symbols =
     alts (map (\<lambda>c. Ch (Lit c))
       [8747, 8721, 8719, 8706, 8711, 8734, 177, 8804, 8805, 8800, 8776, 8712, 8713, 8838,
        8839, 8746, 8745, 8709])"

definition pattern_relation :: rx where
  \<comment> \<open>\<open>[a-zA-Z]\<backslash>s*[=<>...]\<backslash>s*[a-zA-Z0-9]\<close>, the set holding \<open>=\<close>, \<open><\<close>, \<open>>\<close>, U+2264, U+2265,
      U+2260\<close>
  "pattern_relation =
     seqs [Ch Alpha, Star (Ch Space), Ch (OneOf [61, 60, 62, 8804, 8805, 8800]), Star (Ch Space),
           Ch AlphaNum]"

definition mathPatterns :: "rx list" where
  "mathPatterns =
     [pattern_sup_braces, pattern_sup, pattern_sub_braces, pattern_sub, pattern_command_arg,
      pattern_command, pattern_mathbb, pattern_mathcal, pattern_mathrm, pattern_fraction,
      pattern_symbols, pattern_relation]"

text \<open>The replacer: a match that holds a \<open>$\<close> (code unit 36) is left as it is, any other
  is put between two \<open>$\<close>.\<close>

definition wrap_match :: "jstring \<Rightarrow> jstring" where
  "wrap_match m = (if 36 \<in> set m then m else 36 # m @ [36])"

definition ensureMathDelimiters :: "jstring \<Rightarrow> jstring" where
  "ensureMathDelimiters t =
     (if t = [] then t
      else if js_includes (js ''$'') t \<or> js_includes (js ''$$'') t then t
      else if rx_test block_math_rx t then js ''$$'' @ t @ js ''$$''
      else fold (\<lambda>pattern processedText. replace_all pattern wrap_match processedText)
             mathPatterns t)"

section \<open>Quiz: structured extraction (generateQuestionsWithAI)\<close>

text \<open>\<open>text.indexOf(c)\<close> for one code unit.\<close>

fun index_of :: "nat \<Rightarrow> jstring \<Rightarrow> nat option" where
  "index_of c [] = None"
| "index_of c (x # xs) = (if x = c then Some 0 else map_option Suc (index_of c xs))"

text \<open>
  The \<open>for\<close> loop that looks for the closing bracket: \<open>rest\<close> holds the code units from
  index \<open>i\<close> on, \<open>depth\<close> is the counter. The result is \<open>endPos\<close>, \<open>None\<close> for \<open>-1\<close>.
\<close>

fun walk :: "jstring \<Rightarrow> nat \<Rightarrow> int \<Rightarrow> nat option" where
  "walk [] i depth = None"
| "walk (c # rest) i depth =
     (if c = 91 then walk rest (i + 1) (depth + 1)
      else if c = 93 then (if depth - 1 = 0 then Some i else walk rest (i + 1) (depth - 1))
      else walk rest (i + 1) depth)"

definition no_array_message :: jstring where
  "no_array_message = js ''No valid JSON array found in AI response''"

definition unable_message :: jstring where
  "unable_message = js ''Unable to parse valid question list from AI response. Please try again.''"

text \<open>Lines 296 to 320: \<open>jsonString\<close>, or the error raised.\<close>

definition locate_array :: "jstring \<Rightarrow> error + jstring" where
  "locate_array t =
     (case index_of 91 t of
        None \<Rightarrow> Inl (Error no_array_message)
      | Some openPos \<Rightarrow>
          (case walk (drop openPos t) openPos 0 of
             None \<Rightarrow> Inl (Error no_array_message)
           | Some endPos \<Rightarrow> Inr (take (endPos + 1 - openPos) (drop openPos t))))"

text \<open>\<open>jsonString.replace(/\\/g, '\\\\')\<close>: every backslash (code unit 92) doubled.\<close>

definition escape_backslashes :: "jstring \<Rightarrow> jstring" where
  "escape_backslashes s = concat (map (\<lambda>c. if c = 92 then [92, 92] else [c]) s)"

text \<open>Lines 322 to 338: the two attempts to parse.\<close>

definition parse_array :: "(jstring \<Rightarrow> jsval option) \<Rightarrow> jstring \<Rightarrow> error + jsval" where
  "parse_array parse jsonString =
     (case parse (escape_backslashes jsonString) of
        Some parsed \<Rightarrow> Inr parsed
      | None \<Rightarrow>
          (case parse jsonString of
             Some parsed \<Rightarrow> Inr parsed
           | None \<Rightarrow> Inl (Error unable_message)))"

text \<open>\<open>n < 0\<close> and \<open>n >= k\<close> for a number and a length.\<close>

fun js_lt0 :: "jsnum \<Rightarrow> bool" where
  "js_lt0 (Fin q) = (q < 0)"
| "js_lt0 PosInf = False"
| "js_lt0 NegInf = True"

fun js_ge_nat :: "jsnum \<Rightarrow> nat \<Rightarrow> bool" where
  "js_ge_nat (Fin q) k = (of_nat k \<le> q)"
| "js_ge_nat PosInf k = True"
| "js_ge_nat NegInf k = False"

text \<open>
  \<open>MathUtils.ensureMathDelimiters\<close> on whatever value it is handed. A falsy value is
  returned. A number, \<open>true\<close> or an object has no callable \<open>includes\<close>: a TypeError. An
  array has one: it is returned when an element is the string \<open>$\<close> or \<open>$$\<close>; otherwise
  the block test converts it to a string (\<open>arr_str\<close>: what \<open>String(array)\<close> gives, \<open>None\<close>
  when that raises) and a match returns that string between \<open>$$\<close>, while no match ends
  in the TypeError of calling \<open>replace\<close> on an array.
\<close>

definition ensureMath_any :: "(jsval list \<Rightarrow> jstring option) \<Rightarrow> jsval \<Rightarrow> error + jsval" where
  "ensureMath_any arr_str v =
     (if \<not> truthy v then Inr v
      else (case v of
              JStr t \<Rightarrow> Inr (JStr (ensureMathDelimiters t))
            | JArr xs \<Rightarrow>
                if JStr (js ''$'') \<in> set xs \<or> JStr (js ''$$'') \<in> set xs then Inr (JArr xs)
                else (case arr_str xs of
                        None \<Rightarrow> Inl TypeError
                      | Some t \<Rightarrow>
                          if rx_test block_math_rx t then Inr (JStr (js ''$$'' @ t @ js ''$$''))
                          else Inl TypeError)
            | _ \<Rightarrow> Inl TypeError))"

text \<open>\<open>xs.map(f)\<close> with a callback that may raise: the first error ends the call.\<close>

fun map_raise :: "('a \<Rightarrow> error + 'b) \<Rightarrow> 'a list \<Rightarrow> error + 'b list" where
  "map_raise f [] = Inr []"
| "map_raise f (x # xs) =
     (case f x of
        Inl e \<Rightarrow> Inl e
      | Inr y \<Rightarrow> (case map_raise f xs of Inl e \<Rightarrow> Inl e | Inr ys \<Rightarrow> Inr (y # ys)))"

text \<open>The callback of \<open>questions.map\<close> (lines 344 to 366). Reading \<open>q.q\<close> of \<open>null\<close> raises;
  after that first read every other read of \<open>q\<close> succeeds.\<close>

definition process_question :: "(jsval list \<Rightarrow> jstring option) \<Rightarrow> jsval \<Rightarrow> error + TestQuestion" where
  "process_question arr_str q =
     (case get_prop q (js ''q'') of
        Inl e \<Rightarrow> Inl e
      | Inr qq \<Rightarrow>
          let questionV = js_or qq (opt_prop q (js ''question''));
              optionsV = js_or (opt_prop q (js ''opts'')) (opt_prop q (js ''options''));
              correctAnswerV = (if opt_prop q (js ''ans'') \<noteq> JUndefined then opt_prop q (js ''ans'')
                                else opt_prop q (js ''correctAnswer''));
              explanationV = js_or (opt_prop q (js ''exp'')) (opt_prop q (js ''explanation''))
          in (case (optionsV, correctAnswerV) of
                (JArr opts, JNum n) \<Rightarrow>
                  if \<not> truthy questionV then Inl (Error (js ''Invalid question structure''))
                  else if js_lt0 n \<or> js_ge_nat n (length opts)
                  then Inl (Error (js ''Invalid correct answer index''))
                  else
                    (case ensureMath_any arr_str questionV of
                       Inl e \<Rightarrow> Inl e
                     | Inr qt \<Rightarrow>
                         (case map_raise (ensureMath_any arr_str) opts of
                            Inl e \<Rightarrow> Inl e
                          | Inr os \<Rightarrow>
                              (case (if truthy explanationV then ensureMath_any arr_str explanationV
                                     else Inr explanationV) of
                                 Inl e \<Rightarrow> Inl e
                               | Inr ex \<Rightarrow>
                                   Inr \<lparr>question = qt, options = os, correctAnswer = n,
                                        explanation = ex\<rparr>)))
              | _ \<Rightarrow> Inl (Error (js ''Invalid question structure''))))"

text \<open>Lines 339 to 368: the parsed value must be a non-empty array, and every element
  must pass.\<close>

definition validate_questions ::
  "(jsval list \<Rightarrow> jstring option) \<Rightarrow> jsval \<Rightarrow> error + TestQuestion list" where
  "validate_questions arr_str questionsV =
     (case questionsV of
        JArr qs \<Rightarrow> if qs = [] then Inl (Error unable_message)
                   else map_raise (process_question arr_str) qs
      | _ \<Rightarrow> Inl (Error unable_message))"

text \<open>The \<open>catch\<close> of \<open>generateQuestionsWithAI\<close>: friendlier messages for four HTTP
  statuses found in the message.\<close>

definition quiz_catch :: "error \<Rightarrow> error" where
  "quiz_catch e =
     (let m = error_message e in
      if js_includes (js ''503'') m
      then Error (js ''AI service is temporarily unavailable. Please try again in a few moments.'')
      else if js_includes (js ''401'') m \<or> js_includes (js ''403'') m
      then Error (js ''API key is invalid or has insufficient permissions. Please check your API key in settings.'')
      else if js_includes (js ''429'') m
      then Error (js ''API rate limit exceeded. Please wait a moment and try again.'')
      else if js_includes (js ''404'') m
      then Error (js ''Selected model is not available. Please choose a different model in settings.'')
      else e)"

text \<open>
  \<open>generateQuestionsWithAI\<close> from the reply of the second \<open>onCallAI\<close> on (the first one,
  the language detection, only shapes the prompt and swallows its errors). \<open>reply\<close> is
  what that call gave, as its type says: an error raised, \<open>null\<close> or a string.
\<close>

definition generateQuestionsWithAI ::
  "(jstring \<Rightarrow> jsval option) \<Rightarrow> (jsval list \<Rightarrow> jstring option) \<Rightarrow> jstring
     \<Rightarrow> error + jstring option \<Rightarrow> error + TestQuestion list" where
  "generateQuestionsWithAI parse arr_str apiKey reply =
     map_sum quiz_catch (\<lambda>qs. qs)
       (if apiKey = []
        then Inl (Error (js ''API key not configured. Please set it in plugin settings.''))
        else (case reply of
                Inl e \<Rightarrow> Inl e
              | Inr None \<Rightarrow> Inl (Error (js ''No response from AI''))
              | Inr (Some t) \<Rightarrow>
                  if t = [] then Inl (Error (js ''No response from AI''))
                  else (case locate_array t of
                          Inl e \<Rightarrow> Inl e
                        | Inr jsonString \<Rightarrow>
                            (case parse_array parse jsonString of
                               Inl e \<Rightarrow> Inl e
                             | Inr questionsV \<Rightarrow> validate_questions arr_str questionsV))))"

text \<open>The bracket depth of a text, in the words of the description: \<open>[\<close> counts +1 and
  \<open>]\<close> counts -1.\<close>

definition depth_of :: "jstring \<Rightarrow> int" where
  "depth_of s = int (count_list s 91) - int (count_list s 93)"

text \<open>
  What is required of an element, in the words of the description: \<open>question\<close>,
  \<open>options\<close> and \<open>correctAnswer\<close> read from the compact or the full keys; the question
  non-empty (truthy), the options an array, the answer a number with
  \<open>0 <= correctAnswer < options.length\<close>.
\<close>

definition question_of :: "jsval \<Rightarrow> jsval" where
  "question_of q = js_or (opt_prop q (js ''q'')) (opt_prop q (js ''question''))"

definition options_of :: "jsval \<Rightarrow> jsval" where
  "options_of q = js_or (opt_prop q (js ''opts'')) (opt_prop q (js ''options''))"

definition answer_of :: "jsval \<Rightarrow> jsval" where
  "answer_of q = (if opt_prop q (js ''ans'') \<noteq> JUndefined then opt_prop q (js ''ans'')
                  else opt_prop q (js ''correctAnswer''))"

definition valid_question :: "jsval \<Rightarrow> bool" where
  "valid_question q =
     (truthy (question_of q) \<and>
      (case (options_of q, answer_of q) of
         (JArr opts, JNum n) \<Rightarrow> \<not> js_lt0 n \<and> \<not> js_ge_nat n (length opts)
       | _ \<Rightarrow> False))"

text \<open>The errors the extraction itself raises.\<close>

definition quiz_errors :: "error set" where
  "quiz_errors = {TypeError, Error no_array_message, Error unable_message,
                  Error (js ''Invalid question structure''),
                  Error (js ''Invalid correct answer index'')}"

text \<open>Example responses, and \<open>JSON.parse\<close> on their two array texts and on nothing else.\<close>

definition p5_text :: jstring where
  "p5_text = js ''Here you go:\<newline>[{\"q\":\"x^2\",\"opts\":[\"$x^2$\",\"other\"],\"ans\":0}] thanks''"

definition p5_value :: jsval where
  "p5_value =
     JArr [JObj [(js ''q'', JStr (js ''x^2'')),
                 (js ''opts'', JArr [JStr (js ''$x^2$''), JStr (js ''other'')]),
                 (js ''ans'', JNum (Fin 0))]]"

definition p6_value :: jsval where
  "p6_value =
     JArr [JObj [(js ''q'', JStr (js ''x'')),
                 (js ''opts'', JArr [JStr (js ''a''), JStr (js ''b'')]),
                 (js ''ans'', JNum (Fin 5))]]"

definition parse_examples :: "jstring \<Rightarrow> jsval option" where
  "parse_examples s =
     (if s = js ''[{\"q\":\"x^2\",\"opts\":[\"$x^2$\",\"other\"],\"ans\":0}]'' then Some p5_value
      else if s = js ''[{\"q\":\"x\",\"opts\":[\"a\",\"b\"],\"ans\":5}]'' then Some p6_value
      else None)"

text \<open>A check that can be run: the depth, started at \<open>d\<close>, is not 0 before any code unit of
  \<open>s\<close> nor after the last.\<close>

fun stays_open :: "int \<Rightarrow> jstring \<Rightarrow> bool" where
  "stays_open d [] = (d \<noteq> 0)"
| "stays_open d (c # s) =
     (d \<noteq> 0 \<and> stays_open (d + (if c = 91 then 1 else if c = 93 then - 1 else 0)) s)"

definition p6_text :: jstring where
  "p6_text = js ''[{\"q\":\"x\",\"opts\":[\"a\",\"b\"],\"ans\":5}]''"

section \<open>Provider and key resolution consult only the built-in catalog\<close>

lemma find_absent:
  "x \<notin> mid ` set ms \<Longrightarrow> find (\<lambda>m. mid m = x) ms = None"
  by (induction ms) auto

text \<open>
  Claim C10. For every settings state whose selected model id is not an id of the built-in
  catalog \<open>AVAILABLE_MODELS\<close>, whatever \<open>customModels\<close> holds (also a custom model with that
  very id and any provider), \<open>getModelProvider\<close> returns \<open>'gemini'\<close> and
  \<open>getCurrentApiKey\<close> returns the Gemini key.
\<close>

theorem unknown_model_defaults_to_gemini:
  assumes "model s \<notin> mid ` set AVAILABLE_MODELS"
  shows "getModelProvider (s\<lparr>customModels := cms\<rparr>) = js ''gemini''
       \<and> getCurrentApiKey (s\<lparr>customModels := cms\<rparr>) = geminiApiKey s"
proof -
  have "find (\<lambda>m. mid m = model s) AVAILABLE_MODELS = None"
    using assms by (rule find_absent)
  then show ?thesis
    by (simp add: getModelProvider_def getCurrentApiKey_def)
qed

lemma custom_model_not_builtin: "model custom_settings \<notin> mid ` set AVAILABLE_MODELS"
  by (simp add: custom_settings_def AVAILABLE_MODELS_def)

theorem unknown_model_defaults_to_gemini_witness:
  "model custom_settings \<notin> mid ` set AVAILABLE_MODELS
   \<and> getModelProvider (custom_settings
        \<lparr>customModels := [\<lparr>mid = js ''my-gpt'', mname = js ''Mine'', mprovider = js ''openai''\<rparr>]\<rparr>)
       = js ''gemini''
   \<and> getCurrentApiKey (custom_settings
        \<lparr>customModels := [\<lparr>mid = js ''my-gpt'', mname = js ''Mine'', mprovider = js ''openai''\<rparr>]\<rparr>)
       = js ''G-KEY''"
  using unknown_model_defaults_to_gemini [OF custom_model_not_builtin,
      of "[\<lparr>mid = js ''my-gpt'', mname = js ''Mine'', mprovider = js ''openai''\<rparr>]"]
    custom_model_not_builtin
  by (simp add: custom_settings_def)

section \<open>Quiz: one answer per question, and the percentage\<close>

lemma Math_round_is_round: "Math_round x = round x"
  by (simp add: Math_round_def round_def)

text \<open>
  Claim C6. A selection has an effect only while \<open>answered\<close> is false: on an answered
  question it changes nothing; otherwise it sets \<open>answered\<close>, records the index and adds
  one to \<open>correctAnswers\<close> exactly when the index is the current question's
  \<open>correctAnswer\<close>; a second selection after any first one is ignored; and the result's
  percentage is \<open>round(100 * correctAnswers / totalQuestions)\<close>.
\<close>

theorem quiz_answer_once_and_percentage:
  "(answered td \<longrightarrow> selectAnswer (Some td) i = (Some td, None))
   \<and> (\<not> answered td \<and> currentQuestion td < length (questions td) \<longrightarrow>
        selectAnswer (Some td) i =
          (Some (td\<lparr>selectedAnswer := Some i, answered := True,
                     correctAnswers := correctAnswers td +
                       (if Fin (of_nat i) = correctAnswer (questions td ! currentQuestion td)
                        then 1 else 0)\<rparr>), None))
   \<and> selectAnswer (fst (selectAnswer (Some td) i)) j = (fst (selectAnswer (Some td) i), None)
   \<and> (questions td \<noteq> [] \<longrightarrow>
        percentage (renderResultsScreen td) =
          Some (round (100 * of_nat (correctAnswers td) / of_nat (length (questions td)) :: rat)))"
proof (intro conjI impI)
  assume "answered td"
  then show "selectAnswer (Some td) i = (Some td, None)"
    by (simp add: selectAnswer_def)
next
  assume "\<not> answered td \<and> currentQuestion td < length (questions td)"
  then show "selectAnswer (Some td) i =
          (Some (td\<lparr>selectedAnswer := Some i, answered := True,
                     correctAnswers := correctAnswers td +
                       (if Fin (of_nat i) = correctAnswer (questions td ! currentQuestion td)
                        then 1 else 0)\<rparr>), None)"
    by (simp add: selectAnswer_def Let_def)
next
  show "selectAnswer (fst (selectAnswer (Some td) i)) j = (fst (selectAnswer (Some td) i), None)"
    by (simp add: selectAnswer_def Let_def)
next
  assume "questions td \<noteq> []"
  then show "percentage (renderResultsScreen td) =
          Some (round (100 * of_nat (correctAnswers td) / of_nat (length (questions td)) :: rat))"
    by (simp add: renderResultsScreen_def Math_round_is_round mult.commute)
qed

lemma round_200_3: "round (200 / 3 :: rat) = 67"
  unfolding round_def by (rule floor_unique) simp_all

theorem quiz_answer_once_and_percentage_witness:
  "selectAnswer
     (Some \<lparr>questions = [\<lparr>question = JStr (js ''a''), options = [JStr (js ''x''), JStr (js ''y'')],
                           correctAnswer = Fin 1, explanation = JUndefined\<rparr>,
                          \<lparr>question = JStr (js ''b''), options = [JStr (js ''x''), JStr (js ''y'')],
                           correctAnswer = Fin 0, explanation = JUndefined\<rparr>,
                          \<lparr>question = JStr (js ''c''), options = [JStr (js ''x''), JStr (js ''y'')],
                           correctAnswer = Fin 1, explanation = JUndefined\<rparr>],
            currentQuestion = 2, selectedAnswer = None, answered = False, correctAnswers = 1\<rparr>) 1
   = (Some \<lparr>questions = [\<lparr>question = JStr (js ''a''), options = [JStr (js ''x''), JStr (js ''y'')],
                           correctAnswer = Fin 1, explanation = JUndefined\<rparr>,
                          \<lparr>question = JStr (js ''b''), options = [JStr (js ''x''), JStr (js ''y'')],
                           correctAnswer = Fin 0, explanation = JUndefined\<rparr>,
                          \<lparr>question = JStr (js ''c''), options = [JStr (js ''x''), JStr (js ''y'')],
                           correctAnswer = Fin 1, explanation = JUndefined\<rparr>],
            currentQuestion = 2, selectedAnswer = Some 1, answered = True, correctAnswers = 2\<rparr>, None)
   \<and> percentage (renderResultsScreen
        \<lparr>questions = [\<lparr>question = JStr (js ''a''), options = [JStr (js ''x''), JStr (js ''y'')],
                           correctAnswer = Fin 1, explanation = JUndefined\<rparr>,
                          \<lparr>question = JStr (js ''b''), options = [JStr (js ''x''), JStr (js ''y'')],
                           correctAnswer = Fin 0, explanation = JUndefined\<rparr>,
                          \<lparr>question = JStr (js ''c''), options = [JStr (js ''x''), JStr (js ''y'')],
                           correctAnswer = Fin 1, explanation = JUndefined\<rparr>],
            currentQuestion = 2, selectedAnswer = Some 1, answered = True, correctAnswers = 2\<rparr>)
     = Some 67"
  using quiz_answer_once_and_percentage
    [of "\<lparr>questions = [\<lparr>question = JStr (js ''a''), options = [JStr (js ''x''), JStr (js ''y'')],
                           correctAnswer = Fin 1, explanation = JUndefined\<rparr>,
                          \<lparr>question = JStr (js ''b''), options = [JStr (js ''x''), JStr (js ''y'')],
                           correctAnswer = Fin 0, explanation = JUndefined\<rparr>,
                          \<lparr>question = JStr (js ''c''), options = [JStr (js ''x''), JStr (js ''y'')],
                           correctAnswer = Fin 1, explanation = JUndefined\<rparr>],
            currentQuestion = 2, selectedAnswer = None, answered = False, correctAnswers = 1\<rparr>" 1 0]
    quiz_answer_once_and_percentage
    [of "\<lparr>questions = [\<lparr>question = JStr (js ''a''), options = [JStr (js ''x''), JStr (js ''y'')],
                           correctAnswer = Fin 1, explanation = JUndefined\<rparr>,
                          \<lparr>question = JStr (js ''b''), options = [JStr (js ''x''), JStr (js ''y'')],
                           correctAnswer = Fin 0, explanation = JUndefined\<rparr>,
                          \<lparr>question = JStr (js ''c''), options = [JStr (js ''x''), JStr (js ''y'')],
                           correctAnswer = Fin 1, explanation = JUndefined\<rparr>],
            currentQuestion = 2, selectedAnswer = Some 1, answered = True, correctAnswers = 2\<rparr>" 1 0]
    round_200_3
  by simp

section \<open>Streaming: chunks in line order\<close>

lemma map_filter_append:
  "List.map_filter f (xs @ ys) = List.map_filter f xs @ List.map_filter f ys"
  by (simp add: List.map_filter_def)

lemma process_line_eq:
  "process_line parse coerce line st =
     (case line_chunk parse coerce line of
        None \<Rightarrow> st
      | Some c \<Rightarrow> (fst st @ text_of coerce c, snd st @ [c]))"
  by (auto simp: process_line_def line_chunk_def text_of_def Let_def
           split: option.splits sum.splits)

lemma fold_process_line:
  "fold (process_line parse coerce) ls st =
     (fst st @ concat (map (text_of coerce) (List.map_filter (line_chunk parse coerce) ls)),
      snd st @ List.map_filter (line_chunk parse coerce) ls)"
proof (induction ls arbitrary: st)
  case Nil
  show ?case by (simp add: List.map_filter_simps)
next
  case (Cons l ls)
  have "fold (process_line parse coerce) (l # ls) st =
        fold (process_line parse coerce) ls (process_line parse coerce l st)"
    by simp
  also note Cons.IH [of "process_line parse coerce l st"]
  finally show ?case
    by (cases "line_chunk parse coerce l")
       (simp_all add: process_line_eq [of parse coerce l st] List.map_filter_simps)
qed

lemma read_loop_unaborted:
  "read_loop parse coerce has_ctl False (map (\<lambda>c. (False, Fulfilled c)) chunks @ evs) st =
   read_loop parse coerce has_ctl False evs
     (fst st @ concat (map (text_of coerce) (chunk_calls parse coerce chunks)),
      snd st @ chunk_calls parse coerce chunks)"
proof (induction chunks arbitrary: st)
  case Nil
  show ?case by (simp add: chunk_calls_def List.map_filter_simps)
next
  case (Cons c cs)
  show ?case
    using Cons.IH [of "fold (process_line parse coerce) (split [10] c) st"]
    by (simp add: fold_process_line chunk_calls_def map_filter_append)
qed

lemma line_chunk_string:
  "line_chunk parse coerce line = Some (JStr t) \<longleftrightarrow>
     starts_with (js ''data: '') line \<and> drop 6 line \<noteq> js ''[DONE]'' \<and> t \<noteq> [] \<and>
     (\<exists>parsed. parse (drop 6 line) = Some parsed \<and> delta_content parsed = Inr (JStr t))"
  by (auto simp: line_chunk_def appended_text_def split: option.splits sum.splits)

text \<open>
  Claim C1. On the OpenAI/DeepSeek path, when the request succeeds, every read delivers a
  decoded chunk and nothing is cancelled: each chunk is split on newline; a line causes
  an \<open>onChunk\<close> call exactly when it has the prefix \<open>data: \<close>, its payload is not
  \<open>[DONE]\<close>, parses, and its \<open>choices[0].delta.content\<close> is truthy; the calls come in line
  order, one per such line; for a non-empty string content the call's argument is that
  string; and the call returns the concatenation of the texts of its \<open>onChunk\<close> calls (of
  the strings themselves, where they are strings).
\<close>

theorem openai_stream_in_line_order:
  assumes "prov = js ''openai'' \<or> prov = js ''deepseek''"
    and "fetch_reply w = Fulfilled r"
    and "resp_ok r"
    and "resp_reads r = map (\<lambda>c. (False, Fulfilled c)) chunks"
    and "ctl \<noteq> Some True"
    and "\<not> stop_during_fetch w"
  shows "streamAI parse coerce prov ctl w =
           (chunk_calls parse coerce chunks,
            Inr (concat (map (text_of coerce) (chunk_calls parse coerce chunks))))
       \<and> chunk_calls parse coerce chunks =
           List.map_filter (line_chunk parse coerce) (concat (map (split [10]) chunks))
       \<and> (line_chunk parse coerce line = Some (JStr t) \<longleftrightarrow>
            starts_with (js ''data: '') line \<and> drop 6 line \<noteq> js ''[DONE]'' \<and> t \<noteq> [] \<and>
            (\<exists>parsed. parse (drop 6 line) = Some parsed \<and> delta_content parsed = Inr (JStr t)))
       \<and> text_of coerce (JStr t) = t
       \<and> (chunk_calls parse coerce chunks = map JStr ts \<longrightarrow>
            streamAI parse coerce prov ctl w = (map JStr ts, Inr (concat ts)))"
proof -
  have loop: "read_loop parse coerce (ctl \<noteq> None) False (resp_reads r) ([], []) =
      (chunk_calls parse coerce chunks,
       Inr (concat (map (text_of coerce) (chunk_calls parse coerce chunks))))"
    using read_loop_unaborted [of parse coerce "ctl \<noteq> None" chunks "[]" "([], [])"] assms(4)
    by simp
  have run: "streamAI parse coerce prov ctl w =
      (chunk_calls parse coerce chunks,
       Inr (concat (map (text_of coerce) (chunk_calls parse coerce chunks))))"
    using assms loop by (auto simp: streamAI_def)
  have tof: "text_of coerce (JStr t) = t" for t
    by (simp add: text_of_def appended_text_def)
  have strs: "map (text_of coerce) (map JStr ts) = ts"
    by (induction ts) (simp_all add: tof)
  show ?thesis
    using run line_chunk_string [of parse coerce line t] tof strs
    by (auto simp: chunk_calls_def)
qed

lemma hello_lines:
  "concat (map (split [10]) hello_chunks) =
     [js ''data: {\"choices\":[{\"delta\":{\"content\":\"Hel\"}}]}'', [], js ''data: {\"cho'', [],
      js ''data: {\"choices\":[{\"delta\":{\"content\":\"lo\"}}]}'', js ''data: [DONE]'', []]"
  by (simp add: hello_chunks_def hello_chunk1_def hello_chunk2_def split_def)

lemma hello_calls:
  "chunk_calls parse_events (\<lambda>v. None) hello_chunks = map JStr [js ''Hel'', js ''lo'']"
  unfolding chunk_calls_def hello_lines
  by (simp add: line_chunk_def parse_events_def delta_event_def delta_content_def
        opt_prop_def opt_index0_def appended_text_def List.map_filter_simps)

theorem openai_stream_in_line_order_witness:
  "streamAI parse_events (\<lambda>v. None) (js ''openai'') (Some False)
     (http_world (map (\<lambda>c. (False, Fulfilled c)) hello_chunks))
   = ([JStr (js ''Hel''), JStr (js ''lo'')], Inr (js ''Hello''))"
  using openai_stream_in_line_order
    [of "js ''openai''" "http_world (map (\<lambda>c. (False, Fulfilled c)) hello_chunks)"
        "\<lparr> resp_ok = True, resp_status = 200, resp_json = Rejects [],
           resp_reads = map (\<lambda>c. (False, Fulfilled c)) hello_chunks \<rparr>"
        hello_chunks "Some False" parse_events "\<lambda>v. None" "[]" "[]" "[js ''Hel'', js ''lo'']"]
    hello_calls
  by (simp add: http_world_def text_of_def appended_text_def)

section \<open>Streaming: cancellation\<close>

lemma read_loop_aborted:
  "read_loop parse coerce True True evs st = (snd st, Inr (fst st))"
  by (cases evs) auto



lemma read_loop_stop_pending:
  "read_loop parse coerce True False
     (map (\<lambda>c. (False, Fulfilled c)) cs @ (True, Fulfilled c') # rest) ([], []) =
     (chunk_calls parse coerce (cs @ [c']),
      Inr (concat (map (text_of coerce) (chunk_calls parse coerce (cs @ [c'])))))"
proof -
  have "read_loop parse coerce True False
     (map (\<lambda>c. (False, Fulfilled c)) cs @ (True, Fulfilled c') # rest) ([], []) =
     read_loop parse coerce True False ((True, Fulfilled c') # rest)
       (concat (map (text_of coerce) (chunk_calls parse coerce cs)), chunk_calls parse coerce cs)"
    using read_loop_unaborted [of parse coerce True cs "(True, Fulfilled c') # rest" "([], [])"]
    by simp
  also have "\<dots> = (chunk_calls parse coerce cs @ chunk_calls parse coerce [c'],
      Inr (concat (map (text_of coerce) (chunk_calls parse coerce cs))
           @ concat (map (text_of coerce) (chunk_calls parse coerce [c']))))"
    by (simp add: read_loop_aborted fold_process_line chunk_calls_def)
  finally show ?thesis
    by (simp add: chunk_calls_def map_filter_append)
qed






section \<open>The Gemini response parsers\<close>

lemma truthy_not_nullish: "truthy v \<Longrightarrow> \<not> nullish v"
  by (cases v) simp_all

lemma falsy_opt_prop: "\<not> truthy v \<Longrightarrow> opt_prop v k = JUndefined"
  by (cases v) (simp_all add: opt_prop_def)

lemma get_prop_opt_prop: "\<not> nullish v \<Longrightarrow> get_prop v k = Inr (opt_prop v k)"
  by (cases v) (simp_all add: opt_prop_def)

lemma candidate_text_value:
  assumes "\<not> nullish candidate"
  shows "candidate_text candidate = Inr (candidate_parts_text candidate)"
proof (cases "truthy (opt_prop candidate (js ''content''))")
  case True
  then show ?thesis
    using assms
    by (simp add: candidate_text_def candidate_parts_text_def get_prop_opt_prop
          truthy_not_nullish split: jsval.splits)
next
  case False
  then show ?thesis
    using assms
    by (simp add: candidate_text_def candidate_parts_text_def get_prop_opt_prop falsy_opt_prop)
qed

lemma candidates_loop_value:
  "\<forall>c \<in> set candidates. \<not> nullish c \<Longrightarrow>
   candidates_loop candidates acc = Inr (acc @ concat (map candidate_parts_text candidates))"
  by (induction candidates arbitrary: acc) (simp_all add: candidate_text_value)

text \<open>
  Claim C5 at a response whose second candidate is \<open>null\<close>:
  \<open>{"candidates": [{"content": {"parts": [{"text": "Hi"}]}}, null]}\<close>. The text
  \<open>Hi\<close> is recoverable, yet both parsers raise the TypeError of reading
  \<open>candidate.content\<close> on \<open>null\<close>: the candidate is not skipped.
\<close>

theorem gemini_null_candidate_raises:
  "extractTextFromGeminiResponse
     (JObj [(js ''candidates'',
             JArr [JObj [(js ''content'', JObj [(js ''parts'', JArr [JObj [(js ''text'', JStr (js ''Hi''))]])])],
                   JNull])]) = Inl TypeError
   \<and> extractTextFromGeminiChunk
     (JObj [(js ''candidates'',
             JArr [JObj [(js ''content'', JObj [(js ''parts'', JArr [JObj [(js ''text'', JStr (js ''Hi''))]])])],
                   JNull])]) = Inl TypeError"
  by (simp add: extractTextFromGeminiResponse_def extractTextFromGeminiChunk_def
        candidate_text_def part_text_def)

text \<open>
  Where no candidate is \<open>null\<close>, the parsers do what the description says: the response
  parser returns the texts of all parts of all candidates, or raises when that text is
  empty; the chunk parser returns the same text, empty or not.
\<close>

theorem gemini_parsers_concatenate_all:
  assumes "\<forall>c \<in> set candidates. \<not> nullish c"
  shows "extractTextFromGeminiChunk (JObj [(js ''candidates'', JArr candidates)]) =
           Inr (concat (map candidate_parts_text candidates))
       \<and> extractTextFromGeminiResponse (JObj [(js ''candidates'', JArr candidates)]) =
           (if concat (map candidate_parts_text candidates) = []
            then Inl (Error (js ''Invalid response format from Gemini API: no text content found''))
            else Inr (concat (map candidate_parts_text candidates)))"
  using candidates_loop_value [OF assms, of "[]"]
  by (simp add: extractTextFromGeminiChunk_def extractTextFromGeminiResponse_def)

theorem gemini_parsers_concatenate_all_witness:
  "extractTextFromGeminiResponse
     (JObj [(js ''candidates'',
        JArr [JObj [(js ''content'', JObj [(js ''parts'',
                 JArr [JObj [(js ''text'', JStr (js ''a''))], JObj [(js ''text'', JNum (Fin 1))],
                       JObj [(js ''text'', JStr (js ''b''))]])])],
              JObj [(js ''finishReason'', JStr (js ''STOP''))],
              JObj [(js ''content'', JObj [(js ''parts'', JArr [JObj [(js ''text'', JStr (js ''c''))]])])]])])
   = Inr (js ''abc'')"
  using gemini_parsers_concatenate_all
    [of "[JObj [(js ''content'', JObj [(js ''parts'',
                 JArr [JObj [(js ''text'', JStr (js ''a''))], JObj [(js ''text'', JNum (Fin 1))],
                       JObj [(js ''text'', JStr (js ''b''))]])])],
              JObj [(js ''finishReason'', JStr (js ''STOP''))],
              JObj [(js ''content'', JObj [(js ''parts'', JArr [JObj [(js ''text'', JStr (js ''c''))]])])]]"]
  by (simp add: candidate_parts_text_def opt_prop_def part_text_def)

section \<open>callAI: no check of the model against the provider\<close>

text \<open>
  Claim C7, as amended. \<open>callAI\<close> has no check of the model id against the provider: for
  every provider string and every model id it sends exactly one request, to the endpoint
  the provider argument alone selects (\<open>openai\<close>, \<open>deepseek\<close>, anything else Gemini), with
  \<open>settings.model\<close> as the model; and what it returns or raises does not depend on the
  model id.
\<close>

theorem callAI_sends_whatever_the_model:
  "fst (callAI (st\<lparr>model := m\<rparr>) prompt prov apiKey images w) =
     [callAI_request (st\<lparr>model := m\<rparr>) prompt prov apiKey images]
   \<and> (prov = js ''openai'' \<longrightarrow>
        callAI_request (st\<lparr>model := m\<rparr>) prompt prov apiKey images =
          ChatCompletions openai_url apiKey m (openai_content prompt images) False False)
   \<and> (prov = js ''deepseek'' \<longrightarrow>
        callAI_request (st\<lparr>model := m\<rparr>) prompt prov apiKey images =
          ChatCompletions deepseek_url apiKey m (Plain prompt) False False)
   \<and> (prov \<noteq> js ''openai'' \<and> prov \<noteq> js ''deepseek'' \<longrightarrow>
        callAI_request (st\<lparr>model := m\<rparr>) prompt prov apiKey images =
          (if images \<noteq> [] then GeminiSdk apiKey m (map inline_data images) prompt False
           else GeminiGenerate m apiKey prompt))
   \<and> snd (callAI (st\<lparr>model := m\<rparr>) prompt prov apiKey images w) =
       snd (callAI st prompt prov apiKey images w)"
  by (simp add: callAI_def callAI_request_def)

theorem callAI_sends_whatever_the_model_witness:
  "callAI (custom_settings\<lparr>model := js ''gemini-2.0-flash''\<rparr>) (js ''Hi'') (js ''deepseek'')
       (js ''D-KEY'') [] (json_world JNull)
     = ([ChatCompletions deepseek_url (js ''D-KEY'') (js ''gemini-2.0-flash'') (Plain (js ''Hi''))
           False False], Inl TypeError)"
  using callAI_sends_whatever_the_model
    [where st = custom_settings and m = "js ''gemini-2.0-flash''" and prompt = "js ''Hi''"
       and prov = "js ''deepseek''" and apiKey = "js ''D-KEY''" and images = "[]"
       and w = "json_world JNull"]
  by (simp add: callAI_def callAI_try_def json_world_def openai_message_content_def
        callAI_catch_def)

text \<open>
  Claim C7 as stated fails: with the OpenAI branch taken and the DeepSeek model id
  \<open>deepseek-chat\<close> configured, the request goes to the OpenAI endpoint with that model
  id, and the reply is returned; no configuration error is raised.
\<close>

theorem mismatched_model_is_sent:
  "catalog_provider (js ''deepseek-chat'') = Some (js ''deepseek'')
   \<and> callAI (custom_settings\<lparr>model := js ''deepseek-chat''\<rparr>) (js ''Hi'') (js ''openai'')
       (js ''O-KEY'') []
       (json_world (JObj [(js ''choices'',
          JArr [JObj [(js ''message'', JObj [(js ''content'', JStr (js ''Hello''))])]])]))
     = ([ChatCompletions openai_url (js ''O-KEY'') (js ''deepseek-chat'') (Plain (js ''Hi''))
           False False], Inr (JStr (js ''Hello'')))"
  by (simp add: catalog_provider_def AVAILABLE_MODELS_def callAI_def callAI_request_def
        callAI_try_def json_world_def openai_message_content_def openai_content_def
        custom_settings_def)

section \<open>Chat: what Stop leaves in the message list\<close>

lemma dec5: "decimal 1700000000005 = js ''1700000000005''"
  by (simp add: decimal.simps)
lemma dec9: "decimal 1700000000009 = js ''1700000000009''"
  by (simp add: decimal.simps)

text \<open>
  Claim C8 at a Stop pressed on the OpenAI path after the chunk \<open>Hel\<close> was delivered,
  where the read that is pending at that moment rejects (the abort signal is attached
  to the \<open>fetch\<close>): \<open>streamAI\<close> raises, and the chat removes the assistant message that
  held \<open>Hel\<close> and appends the error message in its place.
\<close>

theorem chat_stop_with_rejected_read_discards_partial:
  "currentChatSession (generateChatResponse parse_events (\<lambda>v. None) (js ''openai'') 1700000000005 1700000000009
     (http_world [(False, Fulfilled hello_chunk1), (True, Rejects (js ''The user aborted a request.''))])
     chatting)
   = Some [user_hi,
       \<lparr>msg_id = js ''1700000000009_error'', msg_role = js ''assistant'',
                                        msg_content = error_reply, msg_timestamp = 1700000000009\<rparr>]"
  apply (simp add: generateChatResponse_def chatting_def Let_def streamAI_def http_world_def fold_process_line)
  apply (simp add: hello_chunk1_def split_def line_chunk_def List.map_filter_simps parse_events_def delta_event_def delta_content_def
        opt_prop_def opt_index0_def appended_text_def chat_onChunk_def without_id_def ref_id_def user_hi_def dec5 dec9)
  done


lemma assistant_id_not_typing: "x @ js ''_assistant'' \<noteq> js ''typing''"
proof
  assume "x @ js ''_assistant'' = js ''typing''"
  then have "last (x @ js ''_assistant'') = last (js ''typing'')" by simp
  then show False by simp
qed

lemma chat_onChunk_later:
  "\<not> isFirstChunk c \<Longrightarrow>
   foldl chat_onChunk c (map JStr ts) =
     c\<lparr>assistantMessage :=
         (assistantMessage c)\<lparr>msg_content := msg_content (assistantMessage c) @ concat ts\<rparr>\<rparr>"
  by (induction ts arbitrary: c) (simp_all add: chat_onChunk_def)

lemma chat_onChunk_first:
  "isFirstChunk c \<Longrightarrow>
   foldl chat_onChunk c (map JStr (t # ts)) =
     c\<lparr>isFirstChunk := False,
       chat_messages := without_id (assistantMessage c) (js ''typing'') (chat_messages c) @ [InFlight],
       assistantMessage :=
         (assistantMessage c)\<lparr>msg_content := msg_content (assistantMessage c) @ t @ concat ts\<rparr>\<rparr>"
  by (simp add: chat_onChunk_later chat_onChunk_def)

lemma without_typing_held:
  "without_id a (js ''typing'') (map Held ms) = map Held (filter (\<lambda>m. msg_id m \<noteq> js ''typing'') ms)"
  by (induction ms) (simp_all add: without_id_def ref_id_def)

text \<open>
  When \<open>streamAI\<close> returns normally after string chunks were delivered (as it does when
  the abort signal is seen at the loop's check), the assistant message stays in the list,
  once, after the earlier messages, with the returned text as its content; no error
  message is added, the typing placeholder is gone and the request fields are reset.
\<close>

theorem chat_keeps_partial_reply_on_normal_return:
  assumes "currentChatSession mgr = Some msgs"
    and "streamAI parse coerce prov (Some False) w = (map JStr ts, Inr full)"
    and "ts \<noteq> []"
  shows "generateChatResponse parse coerce prov now later w mgr =
     mgr\<lparr>currentChatSession :=
           Some (filter (\<lambda>m. msg_id m \<noteq> js ''typing'') msgs @
                 [\<lparr>msg_id = decimal now @ js ''_assistant'', msg_role = js ''assistant'',
                   msg_content = (if full \<noteq> [] then full else concat ts),
                   msg_timestamp = now\<rparr>]),
         isRequestInFlight := False, isStreamingChat := False, currentAbortController := None\<rparr>"
proof -
  obtain t ts' where ts: "ts = t # ts'"
    using assms(3) by (cases ts) auto
  show ?thesis
    using assms(1,2) unfolding ts generateChatResponse_def Let_def
    apply (simp add: chat_onChunk_first without_id_def ref_id_def assistant_id_not_typing
          del: map_append foldl_Cons list.map)
    apply (simp add: o_def)
    done
qed

lemma hello_stream_stopped:
  "streamAI parse_events (\<lambda>v. None) (js ''openai'') (Some False)
     (http_world [(False, Fulfilled hello_chunk1), (True, Fulfilled hello_chunk2)])
   = (map JStr [js ''Hel'', js ''lo''], Inr (js ''Hello''))"
  using read_loop_stop_pending [of parse_events "\<lambda>v. None" "[hello_chunk1]" hello_chunk2 "[]"]
    hello_calls
  by (simp add: streamAI_def http_world_def hello_chunks_def text_of_def appended_text_def)

theorem chat_keeps_partial_reply_on_normal_return_witness:
  "generateChatResponse parse_events (\<lambda>v. None) (js ''openai'') 1700000000005 1700000000009
     (http_world [(False, Fulfilled hello_chunk1), (True, Fulfilled hello_chunk2)]) chatting
   = \<lparr>currentChatSession =
         Some [user_hi,
               \<lparr>msg_id = js ''1700000000005_assistant'', msg_role = js ''assistant'',
                 msg_content = js ''Hello'', msg_timestamp = 1700000000005\<rparr>],
       isRequestInFlight = False, isStreamingChat = False, currentAbortController = None\<rparr>"
  using chat_keeps_partial_reply_on_normal_return
    [where mgr = chatting and msgs = "[user_hi]" and parse = parse_events
       and coerce = "\<lambda>v. None" and prov = "js ''openai''"
       and w = "http_world [(False, Fulfilled hello_chunk1), (True, Fulfilled hello_chunk2)]"
       and ts = "[js ''Hel'', js ''lo'']" and full = "js ''Hello''"
       and now = 1700000000005 and later = 1700000000009]
    hello_stream_stopped
  by (simp add: chatting_def user_hi_def dec5)

section \<open>ensureMathDelimiters\<close>

lemma includes_dollar: "js_includes [36] t \<longleftrightarrow> 36 \<in> set t"
  by (induction t) auto

lemma includes_two_dollars: "js_includes [36, 36] t \<Longrightarrow> 36 \<in> set t"
  by (induction t) auto

lemma test_from_false:
  "\<not> test_from r t i \<Longrightarrow> i \<le> k \<Longrightarrow> k \<le> length t \<Longrightarrow> ends r t k = []"
proof (induction r t i rule: test_from.induct)
  case (1 r t i)
  from "1.prems"(1) have e: "ends r t i = []"
    by (subst (asm) test_from.simps) (simp split: if_splits)
  show ?case
  proof (cases "k = i")
    case True
    then show ?thesis using e by simp
  next
    case False
    then have lt: "i < length t" and k: "i + 1 \<le> k"
      using "1.prems" by auto
    from "1.prems"(1) e lt have "\<not> test_from r t (i + 1)"
      by (subst (asm) test_from.simps) simp
    then show ?thesis
      using "1.IH" e lt k "1.prems"(3) by simp
  qed
qed

lemma replace_from_no_match:
  "(\<forall>k. i \<le> k \<and> k \<le> length t \<longrightarrow> ends r t k = []) \<Longrightarrow> i \<le> length t \<Longrightarrow>
   replace_from r fn t i = drop i t"
proof (induction r fn t i rule: replace_from.induct)
  case (1 r fn t i)
  have e: "ends r t i = []"
    using "1.prems" by simp
  show ?case
  proof (cases "i < length t")
    case True
    have "replace_from r fn t (i + 1) = drop (i + 1) t"
      using "1.IH"(1) [OF e True] "1.prems" True by simp
    then show ?thesis
      using e True by (subst replace_from.simps) (simp add: Cons_nth_drop_Suc)
  next
    case False
    then show ?thesis
      using e "1.prems"(2) by (subst replace_from.simps) simp
  qed
qed

lemma replace_all_no_match: "\<not> rx_test r t \<Longrightarrow> replace_all r fn t = t"
  using test_from_false [of r t 0] replace_from_no_match [of 0 t r fn]
  by (simp add: rx_test_def replace_all_def)

lemma fold_no_match:
  "\<forall>p \<in> set ps. \<not> rx_test p t \<Longrightarrow>
   fold (\<lambda>pattern processedText. replace_all pattern fn processedText) ps t = t"
  by (induction ps) (simp_all add: replace_all_no_match)

text \<open>
  The three cases in which the result is fixed by the description: a text that holds a
  \<open>$\<close> is returned as it is; a text without \<open>$\<close> that holds a block environment is
  returned between \<open>$$\<close> and \<open>$$\<close>; a text in which no pattern matches is returned as it
  is.
\<close>

theorem ensureMathDelimiters_fixed_cases:
  "(36 \<in> set t \<longrightarrow> ensureMathDelimiters t = t)
   \<and> (36 \<notin> set t \<and> rx_test block_math_rx t \<longrightarrow> ensureMathDelimiters t = js ''$$'' @ t @ js ''$$'')
   \<and> (36 \<notin> set t \<and> \<not> rx_test block_math_rx t \<and> (\<forall>p \<in> set mathPatterns. \<not> rx_test p t)
        \<longrightarrow> ensureMathDelimiters t = t)"
proof (intro conjI impI)
  assume "36 \<in> set t"
  then show "ensureMathDelimiters t = t"
    using includes_dollar [of t] by (simp add: ensureMathDelimiters_def)
next
  assume a: "36 \<notin> set t \<and> rx_test block_math_rx t"
  have "\<not> rx_test block_math_rx []"
    by (simp add: rx_test_def test_from.simps block_math_rx_def lit_def)
  with a have "t \<noteq> []"
    by auto
  then show "ensureMathDelimiters t = js ''$$'' @ t @ js ''$$''"
    using a includes_dollar [of t] includes_two_dollars [of t]
    by (auto simp: ensureMathDelimiters_def)
next
  assume a: "36 \<notin> set t \<and> \<not> rx_test block_math_rx t \<and> (\<forall>p \<in> set mathPatterns. \<not> rx_test p t)"
  then show "ensureMathDelimiters t = t"
    using includes_dollar [of t] includes_two_dollars [of t] fold_no_match [of mathPatterns t wrap_match]
    by (auto simp: ensureMathDelimiters_def)
qed

lemmas rx_eval = replace_all_def replace_from.simps is_alpha_def is_digit_def is_word_def
  is_space_def word_at_def wrap_match_def lit_def

lemma s1: "replace_all pattern_sup_braces wrap_match (92 # js ''sqrt{2}'') = 92 # js ''sqrt{2}''"
  by (simp add: rx_eval pattern_sup_braces_def)
lemma s2: "replace_all pattern_sup wrap_match (92 # js ''sqrt{2}'') = 92 # js ''sqrt{2}''"
  by (simp add: rx_eval pattern_sup_def)
lemma s3: "replace_all pattern_sub_braces wrap_match (92 # js ''sqrt{2}'') = 92 # js ''sqrt{2}''"
  by (simp add: rx_eval pattern_sub_braces_def)
lemma s4: "replace_all pattern_sub wrap_match (92 # js ''sqrt{2}'') = 92 # js ''sqrt{2}''"
  by (simp add: rx_eval pattern_sub_def)
lemma s5: "replace_all pattern_command_arg wrap_match (92 # js ''sqrt{2}'') = 36 # 92 # js ''sqrt{2}$''"
  by (simp add: rx_eval pattern_command_arg_def)
lemma s6: "replace_all pattern_command wrap_match (36 # 92 # js ''sqrt{2}$'') = 36 # 36 # 92 # js ''sqrt${2}$''"
  by (simp add: rx_eval pattern_command_def)
lemma s7: "replace_all pattern_mathbb wrap_match (36 # 36 # 92 # js ''sqrt${2}$'') = 36 # 36 # 92 # js ''sqrt${2}$''"
  by (simp add: rx_eval pattern_mathbb_def)
lemma s8: "replace_all pattern_mathcal wrap_match (36 # 36 # 92 # js ''sqrt${2}$'') = 36 # 36 # 92 # js ''sqrt${2}$''"
  by (simp add: rx_eval pattern_mathcal_def)
lemma s9: "replace_all pattern_mathrm wrap_match (36 # 36 # 92 # js ''sqrt${2}$'') = 36 # 36 # 92 # js ''sqrt${2}$''"
  by (simp add: rx_eval pattern_mathrm_def)
lemma s10: "replace_all pattern_fraction wrap_match (36 # 36 # 92 # js ''sqrt${2}$'') = 36 # 36 # 92 # js ''sqrt${2}$''"
  by (simp add: rx_eval pattern_fraction_def)
lemma s11: "replace_all pattern_symbols wrap_match (36 # 36 # 92 # js ''sqrt${2}$'') = 36 # 36 # 92 # js ''sqrt${2}$''"
  by (simp add: rx_eval pattern_symbols_def)
lemma s12: "replace_all pattern_relation wrap_match (36 # 36 # 92 # js ''sqrt${2}$'') = 36 # 36 # 92 # js ''sqrt${2}$''"
  by (simp add: rx_eval pattern_relation_def)
lemma s0: "\<not> rx_test block_math_rx (92 # js ''sqrt{2}'')"
  by (simp add: rx_test_def test_from.simps block_math_rx_def lit_def)

text \<open>
  Claim C9 at the text \<open>\<backslash>sqrt{2}\<close>, which holds no \<open>$\<close> and no block environment. The fifth
  pattern matches all of it and wraps it; the sixth pattern then matches \<open>\<backslash>sqrt\<close> inside
  the wrapped text and wraps that again, since the replacer only looks for a \<open>$\<close> inside
  the match. The result is \<open>$$\<backslash>sqrt${2}$\<close>: the substring that matched is not left
  between one pair of \<open>$\<close>.
\<close>

theorem sqrt_wrapped_twice:
  "ensureMathDelimiters (92 # js ''sqrt{2}'') = js ''$$'' @ 92 # js ''sqrt${2}$''"
  using s0 s1 s2 s3 s4 s5 s6 s7 s8 s9 s10 s11 s12
  by (simp add: ensureMathDelimiters_def mathPatterns_def)

section \<open>Quiz: structured extraction\<close>

lemma index_of_none: "c \<notin> set t \<Longrightarrow> index_of c t = None"
  by (induction t) auto

lemma index_of_first: "c \<notin> set pre \<Longrightarrow> index_of c (pre @ c # rest) = Some (length pre)"
  by (induction pre) auto

lemma depth_of_Nil [simp]: "depth_of [] = 0"
  by (simp add: depth_of_def)

lemma depth_of_Cons [simp]:
  "depth_of (c # s) = (if c = 91 then 1 else if c = 93 then - 1 else 0) + depth_of s"
  by (simp add: depth_of_def)

lemma depth_of_append [simp]: "depth_of (a @ b) = depth_of a + depth_of b"
  by (induction a) auto

lemma walk_found:
  "1 \<le> d \<Longrightarrow> (\<forall>n \<le> length inner. d + depth_of (take n inner) \<noteq> 0) \<Longrightarrow> d + depth_of inner = 1 \<Longrightarrow>
   walk (inner @ 93 # post) i d = Some (i + length inner)"
proof (induction inner arbitrary: i d)
  case Nil
  then show ?case by simp
next
  case (Cons c inner)
  have step: "\<forall>n \<le> length inner. d + depth_of [c] + depth_of (take n inner) \<noteq> 0"
  proof (intro allI impI)
    fix n assume "n \<le> length inner"
    then have "d + depth_of (take (Suc n) (c # inner)) \<noteq> 0"
      using Cons.prems(2) by (metis Suc_le_mono length_Cons)
    then show "d + depth_of [c] + depth_of (take n inner) \<noteq> 0"
      by (simp add: add.assoc)
  qed
  from step have d1: "d + depth_of [c] \<noteq> 0"
    by (metis add.right_neutral depth_of_Nil le0 take_0)
  show ?case
  proof (cases "c = 91")
    case True
    then show ?thesis
      using Cons.IH [of "d + 1" "i + 1"] Cons.prems step by simp
  next
    case n91: False
    show ?thesis
    proof (cases "c = 93")
      case True
      then have "1 \<le> d - 1" using d1 Cons.prems(1) by simp
      then show ?thesis
        using Cons.IH [of "d - 1" "i + 1"] Cons.prems step True d1 by simp
    next
      case False
      then show ?thesis
        using Cons.IH [of d "i + 1"] Cons.prems step n91 by simp
    qed
  qed
qed

lemma walk_none:
  "1 \<le> d \<Longrightarrow> (\<forall>n \<le> length rest. d + depth_of (take n rest) \<noteq> 0) \<Longrightarrow> walk rest i d = None"
proof (induction rest arbitrary: i d)
  case Nil
  then show ?case by simp
next
  case (Cons c rest)
  have step: "\<forall>n \<le> length rest. d + depth_of [c] + depth_of (take n rest) \<noteq> 0"
  proof (intro allI impI)
    fix n assume "n \<le> length rest"
    then have "d + depth_of (take (Suc n) (c # rest)) \<noteq> 0"
      using Cons.prems(2) by (metis Suc_le_mono length_Cons)
    then show "d + depth_of [c] + depth_of (take n rest) \<noteq> 0"
      by (simp add: add.assoc)
  qed
  from step have d1: "d + depth_of [c] \<noteq> 0"
    by (metis add.right_neutral depth_of_Nil le0 take_0)
  show ?case
  proof (cases "c = 91")
    case True
    then show ?thesis
      using Cons.IH [of "d + 1" "i + 1"] Cons.prems step by simp
  next
    case n91: False
    show ?thesis
    proof (cases "c = 93")
      case True
      then have "1 \<le> d - 1" using d1 Cons.prems(1) by simp
      then show ?thesis
        using Cons.IH [of "d - 1" "i + 1"] Cons.prems step True d1 by simp
    next
      case False
      then show ?thesis
        using Cons.IH [of d "i + 1"] Cons.prems step n91 by simp
    qed
  qed
qed

lemma locate_none: "91 \<notin> set t \<Longrightarrow> locate_array t = Inl (Error no_array_message)"
  by (simp add: locate_array_def index_of_none)

lemma locate_unbalanced:
  assumes "91 \<notin> set pre"
    and "\<forall>n. 0 < n \<and> n \<le> length (91 # rest) \<longrightarrow> depth_of (take n (91 # rest)) \<noteq> 0"
  shows "locate_array (pre @ 91 # rest) = Inl (Error no_array_message)"
proof -
  have "\<forall>n \<le> length rest. 1 + depth_of (take n rest) \<noteq> 0"
  proof (intro allI impI)
    fix n assume "n \<le> length rest"
    then have "depth_of (take (Suc n) (91 # rest)) \<noteq> 0"
      using assms(2) by (metis Suc_le_mono length_Cons zero_less_Suc)
    then show "1 + depth_of (take n rest) \<noteq> 0" by simp
  qed
  then have "walk rest (length pre + 1) 1 = None"
    by (intro walk_none) simp_all
  then show ?thesis
    using assms(1) by (simp add: locate_array_def index_of_first)
qed

lemma locate_balanced:
  assumes "91 \<notin> set pre"
    and "\<forall>n \<le> length inner. depth_of (91 # take n inner) \<noteq> 0"
    and "depth_of (91 # inner @ [93]) = 0"
  shows "locate_array (pre @ (91 # inner @ [93]) @ post) = Inr (91 # inner @ [93])"
proof -
  have "walk (inner @ 93 # post) (length pre + 1) 1 = Some (length pre + 1 + length inner)"
    using assms(2,3) by (intro walk_found) simp_all
  then show ?thesis
    using assms(1) index_of_first [of 91 pre "inner @ 93 # post"]
    by (simp add: locate_array_def)
qed

lemma quiz_catch_fixed:
  "quiz_catch TypeError = TypeError"
  "quiz_catch (Error no_array_message) = Error no_array_message"
  "quiz_catch (Error unable_message) = Error unable_message"
  "quiz_catch (Error (js ''Invalid question structure'')) = Error (js ''Invalid question structure'')"
  "quiz_catch (Error (js ''Invalid correct answer index'')) = Error (js ''Invalid correct answer index'')"
  "quiz_catch (Error (js ''No response from AI'')) = Error (js ''No response from AI'')"
  by (simp_all add: quiz_catch_def no_array_message_def unable_message_def)

lemma quiz_catch_quiz_errors: "e \<in> quiz_errors \<Longrightarrow> quiz_catch e = e"
  unfolding quiz_errors_def using quiz_catch_fixed by auto

lemma ensureMath_any_errors: "ensureMath_any arr_str v = Inl e \<Longrightarrow> e = TypeError"
  by (auto simp: ensureMath_any_def split: if_splits jsval.splits option.splits)

lemma map_raise_errors:
  "map_raise f xs = Inl e \<Longrightarrow> \<exists>x \<in> set xs. f x = Inl e"
  by (induction xs) (auto split: sum.splits)

lemma process_question_errors:
  "process_question arr_str q = Inl e \<Longrightarrow> e \<in> quiz_errors"
  unfolding process_question_def Let_def quiz_errors_def
  by (cases q)
     (auto split: sum.splits if_splits jsval.splits prod.splits
           dest!: ensureMath_any_errors map_raise_errors)

lemma validate_questions_errors:
  "validate_questions arr_str v = Inl e \<Longrightarrow> e \<in> quiz_errors"
  unfolding validate_questions_def
  by (auto split: jsval.splits if_splits dest!: map_raise_errors process_question_errors
           simp: quiz_errors_def)

lemma generate_is_extract_parse_validate:
  assumes "apiKey \<noteq> []" and "t \<noteq> []"
  shows "generateQuestionsWithAI parse arr_str apiKey (Inr (Some t)) =
     (case locate_array t of
        Inl e \<Rightarrow> Inl e
      | Inr s \<Rightarrow>
          (case parse_array parse s of
             Inl e \<Rightarrow> Inl e
           | Inr v \<Rightarrow> validate_questions arr_str v))"
proof -
  have l: "locate_array t = Inl e \<Longrightarrow> e \<in> quiz_errors" for e
    by (auto simp: locate_array_def quiz_errors_def split: option.splits)
  have p: "parse_array parse s = Inl e \<Longrightarrow> e \<in> quiz_errors" for e s
    by (auto simp: parse_array_def quiz_errors_def split: option.splits)
  have v: "map_sum quiz_catch (\<lambda>qs. qs) (validate_questions arr_str x) =
           validate_questions arr_str x" for x
    by (cases "validate_questions arr_str x")
       (simp_all add: quiz_catch_quiz_errors validate_questions_errors)
  show ?thesis
    using assms
    by (auto simp: generateQuestionsWithAI_def quiz_catch_quiz_errors v
             split: sum.splits dest: l p)
qed

text \<open>
  Claim C3. The extraction fails when the text holds no \<open>[\<close>; it fails when, walking
  on from the first \<open>[\<close> with \<open>[\<close> counted +1 and \<open>]\<close> counted -1, the depth never
  returns to 0; otherwise the slice is the balanced one that starts at the first \<open>[\<close>,
  its closing bracket included. \<open>JSON.parse\<close> is tried on the slice with every backslash
  doubled, then, when that fails, on the slice itself, and the error is raised only
  when both fail. The whole function, for a key and a non-empty response, is this
  extraction followed by the validation.
\<close>

theorem extraction_slice_then_two_parses:
  "(91 \<notin> set t \<longrightarrow> locate_array t = Inl (Error no_array_message))
   \<and> (91 \<notin> set pre \<and>
        (\<forall>n. 0 < n \<and> n \<le> length (91 # rest) \<longrightarrow> depth_of (take n (91 # rest)) \<noteq> 0)
       \<longrightarrow> locate_array (pre @ 91 # rest) = Inl (Error no_array_message))
   \<and> (91 \<notin> set pre \<and> (\<forall>n \<le> length inner. depth_of (91 # take n inner) \<noteq> 0) \<and>
        depth_of (91 # inner @ [93]) = 0
       \<longrightarrow> locate_array (pre @ (91 # inner @ [93]) @ post) = Inr (91 # inner @ [93]))
   \<and> parse_array parse s =
        (case parse (concat (map (\<lambda>c. if c = 92 then [92, 92] else [c]) s)) of
           Some v \<Rightarrow> Inr v
         | None \<Rightarrow> (case parse s of Some v \<Rightarrow> Inr v | None \<Rightarrow> Inl (Error unable_message)))
   \<and> (apiKey \<noteq> [] \<and> t \<noteq> [] \<longrightarrow>
        generateQuestionsWithAI parse arr_str apiKey (Inr (Some t)) =
          (case locate_array t of
             Inl e \<Rightarrow> Inl e
           | Inr s \<Rightarrow>
               (case parse_array parse s of
                  Inl e \<Rightarrow> Inl e
                | Inr v \<Rightarrow> validate_questions arr_str v)))"
  using locate_none [of t] locate_unbalanced [of pre rest] locate_balanced [of pre inner post]
    generate_is_extract_parse_validate [of apiKey t parse arr_str]
  by (simp add: parse_array_def escape_backslashes_def)

lemma p5_split:
  "p5_text = js ''Here you go:\<newline>'' @
     (91 # js ''{\"q\":\"x^2\",\"opts\":[\"$x^2$\",\"other\"],\"ans\":0}'' @ [93]) @ js '' thanks''"
  by (simp add: p5_text_def)

lemma stays_open_prefixes:
  "stays_open d s \<Longrightarrow> n \<le> length s \<Longrightarrow> d + depth_of (take n s) \<noteq> 0"
proof (induction s arbitrary: d n)
  case Nil
  then show ?case by simp
next
  case (Cons c s)
  show ?case
  proof (cases n)
    case 0
    then show ?thesis using Cons.prems by simp
  next
    case (Suc k)
    then show ?thesis
      using Cons.IH [of "d + (if c = 91 then 1 else if c = 93 then - 1 else 0)" k] Cons.prems
      by (simp add: add.assoc)
  qed
qed

lemma p5_prefixes:
  "\<forall>n \<le> length (js ''{\"q\":\"x^2\",\"opts\":[\"$x^2$\",\"other\"],\"ans\":0}'').
      depth_of (91 # take n (js ''{\"q\":\"x^2\",\"opts\":[\"$x^2$\",\"other\"],\"ans\":0}'')) \<noteq> 0"
proof (intro allI impI)
  fix n
  assume "n \<le> length (js ''{\"q\":\"x^2\",\"opts\":[\"$x^2$\",\"other\"],\"ans\":0}'')"
  moreover have "stays_open 1 (js ''{\"q\":\"x^2\",\"opts\":[\"$x^2$\",\"other\"],\"ans\":0}'')"
    by simp
  ultimately show
    "depth_of (91 # take n (js ''{\"q\":\"x^2\",\"opts\":[\"$x^2$\",\"other\"],\"ans\":0}'')) \<noteq> 0"
    using stays_open_prefixes by fastforce
qed

lemma unbalanced_prefixes:
  "\<forall>n. 0 < n \<and> n \<le> length (91 # js ''[1,2] and more'') \<longrightarrow>
       depth_of (take n (91 # js ''[1,2] and more'')) \<noteq> 0"
proof (intro allI impI)
  fix n
  assume a: "0 < n \<and> n \<le> length (91 # js ''[1,2] and more'')"
  then obtain k where k: "n = Suc k" by (cases n) auto
  have "stays_open 1 (js ''[1,2] and more'')"
    by simp
  then have "1 + depth_of (take k (js ''[1,2] and more'')) \<noteq> 0"
    using a k by (intro stays_open_prefixes) simp_all
  then show "depth_of (take n (91 # js ''[1,2] and more'')) \<noteq> 0"
    using k by simp
qed

theorem extraction_slice_then_two_parses_witness:
  "locate_array (js ''no array here'') = Inl (Error no_array_message)
   \<and> locate_array (js ''see '' @ 91 # js ''[1,2] and more'') = Inl (Error no_array_message)
   \<and> locate_array p5_text = Inr (js ''[{\"q\":\"x^2\",\"opts\":[\"$x^2$\",\"other\"],\"ans\":0}]'')
   \<and> parse_array parse_examples (js ''[{\"q\":\"x^2\",\"opts\":[\"$x^2$\",\"other\"],\"ans\":0}]'')
       = Inr p5_value
   \<and> generateQuestionsWithAI parse_examples (\<lambda>xs. None) (js ''KEY'') (Inr (Some p5_text))
       = validate_questions (\<lambda>xs. None) p5_value"
proof -
  note T = extraction_slice_then_two_parses
  have A: "locate_array (js ''no array here'') = Inl (Error no_array_message)"
    by (rule T [THEN conjunct1, THEN mp]) simp
  have B: "locate_array (js ''see '' @ 91 # js ''[1,2] and more'') = Inl (Error no_array_message)"
    by (rule T [THEN conjunct2, THEN conjunct1, THEN mp], rule conjI, simp,
        rule unbalanced_prefixes)
  have "locate_array (js ''Here you go:\<newline>'' @
          (91 # js ''{\"q\":\"x^2\",\"opts\":[\"$x^2$\",\"other\"],\"ans\":0}'' @ [93]) @ js '' thanks'')
        = Inr (91 # js ''{\"q\":\"x^2\",\"opts\":[\"$x^2$\",\"other\"],\"ans\":0}'' @ [93])"
    by (rule T [THEN conjunct2, THEN conjunct2, THEN conjunct1, THEN mp], rule conjI, simp,
        rule conjI, rule p5_prefixes, simp)
  then have C: "locate_array p5_text =
      Inr (js ''[{\"q\":\"x^2\",\"opts\":[\"$x^2$\",\"other\"],\"ans\":0}]'')"
    by (simp add: p5_text_def)
  have D: "parse_array parse_examples (js ''[{\"q\":\"x^2\",\"opts\":[\"$x^2$\",\"other\"],\"ans\":0}]'')
       = Inr p5_value"
    by (simp add: T [THEN conjunct2, THEN conjunct2, THEN conjunct2, THEN conjunct1]
          parse_examples_def)
  have "generateQuestionsWithAI parse_examples (\<lambda>xs. None) (js ''KEY'') (Inr (Some p5_text)) =
          (case locate_array p5_text of
             Inl e \<Rightarrow> Inl e
           | Inr s \<Rightarrow>
               (case parse_array parse_examples s of
                  Inl e \<Rightarrow> Inl e
                | Inr v \<Rightarrow> validate_questions (\<lambda>xs. None) v))"
    by (rule T [THEN conjunct2, THEN conjunct2, THEN conjunct2, THEN conjunct2, THEN mp])
       (simp add: p5_text_def)
  then have E: "generateQuestionsWithAI parse_examples (\<lambda>xs. None) (js ''KEY'') (Inr (Some p5_text))
       = validate_questions (\<lambda>xs. None) p5_value"
    by (simp only: C D sum.case)
  show ?thesis
    using A B C D E by (intro conjI)
qed

lemma invalid_question_raises:
  assumes "\<not> valid_question q"
  shows "isl (process_question arr_str q)"
proof (cases "nullish q")
  case True
  then show ?thesis
    by (cases q) (simp_all add: process_question_def)
next
  case False
  then have g: "get_prop q (js ''q'') = Inr (opt_prop q (js ''q''))"
    by (rule get_prop_opt_prop)
  show ?thesis
    using assms
    unfolding process_question_def g valid_question_def question_of_def options_of_def
      answer_of_def Let_def
    by (auto split: jsval.splits prod.splits)
qed

lemma map_raise_isl: "isl (map_raise f xs) \<longleftrightarrow> (\<exists>x \<in> set xs. isl (f x))"
  by (induction xs) (auto split: sum.splits)

lemma map_raise_fails: "\<exists>x \<in> set xs. isl (f x) \<Longrightarrow> isl (map_raise f xs)"
  by (simp add: map_raise_isl)

text \<open>
  Claim C4. After a successful parse the value must be a non-empty array, else the call
  raises; and when any one element is not valid (its question, read from \<open>q\<close> or
  \<open>question\<close>, is empty, or its options are not an array, or its answer is not a number
  with \<open>0 <= correctAnswer < options.length\<close>), the validation and the whole call raise:
  no list of questions is returned.
\<close>

theorem invalid_element_rejects_batch:
  "(((\<forall>qs. v \<noteq> JArr qs) \<or> v = JArr []) \<longrightarrow>
      validate_questions arr_str v = Inl (Error unable_message))
   \<and> ((\<exists>q \<in> set qs. \<not> valid_question q) \<longrightarrow>
        (\<exists>e. validate_questions arr_str (JArr qs) = Inl e))
   \<and> (apiKey \<noteq> [] \<and> t \<noteq> [] \<and> locate_array t = Inr s \<and> parse_array parse s = Inr (JArr qs) \<and>
        (\<exists>q \<in> set qs. \<not> valid_question q) \<longrightarrow>
        (\<exists>e. generateQuestionsWithAI parse arr_str apiKey (Inr (Some t)) = Inl e))"
proof (intro conjI impI)
  assume "(\<forall>qs. v \<noteq> JArr qs) \<or> v = JArr []"
  then show "validate_questions arr_str v = Inl (Error unable_message)"
    by (cases v) (auto simp: validate_questions_def)
next
  assume "\<exists>q \<in> set qs. \<not> valid_question q"
  then have "isl (map_raise (process_question arr_str) qs)"
    by (intro map_raise_fails) (auto intro: invalid_question_raises)
  then show "\<exists>e. validate_questions arr_str (JArr qs) = Inl e"
    by (cases "map_raise (process_question arr_str) qs") (auto simp: validate_questions_def)
next
  assume a: "apiKey \<noteq> [] \<and> t \<noteq> [] \<and> locate_array t = Inr s \<and> parse_array parse s = Inr (JArr qs) \<and>
        (\<exists>q \<in> set qs. \<not> valid_question q)"
  then have "isl (map_raise (process_question arr_str) qs)"
    by (intro map_raise_fails) (auto intro: invalid_question_raises)
  then have "\<exists>e. validate_questions arr_str (JArr qs) = Inl e"
    by (cases "map_raise (process_question arr_str) qs") (auto simp: validate_questions_def)
  then show "\<exists>e. generateQuestionsWithAI parse arr_str apiKey (Inr (Some t)) = Inl e"
    using a generate_is_extract_parse_validate [of apiKey t parse arr_str] by auto
qed

lemma p6_located: "locate_array p6_text = Inr p6_text"
  by (simp add: locate_array_def p6_text_def)

lemma p6_parsed: "parse_array parse_examples p6_text = Inr p6_value"
  by (simp add: parse_array_def escape_backslashes_def parse_examples_def p6_text_def)

lemma p6_invalid:
  "\<not> valid_question (JObj [(js ''q'', JStr (js ''x'')),
                 (js ''opts'', JArr [JStr (js ''a''), JStr (js ''b'')]),
                 (js ''ans'', JNum (Fin 5))])"
  by (simp add: valid_question_def question_of_def options_of_def answer_of_def opt_prop_def
        js_or_def)

theorem invalid_element_rejects_batch_witness:
  "(\<exists>e. generateQuestionsWithAI parse_examples (\<lambda>xs. None) (js ''KEY'') (Inr (Some p6_text)) = Inl e)
   \<and> validate_questions (\<lambda>xs. None) p6_value = Inl (Error (js ''Invalid correct answer index''))
   \<and> validate_questions (\<lambda>xs. None) (JObj []) = Inl (Error unable_message)"
proof -
  note T = invalid_element_rejects_batch
  have A: "\<exists>e. generateQuestionsWithAI parse_examples (\<lambda>xs. None) (js ''KEY'') (Inr (Some p6_text)) = Inl e"
    by (rule T [where s = p6_text
                  and qs = "[JObj [(js ''q'', JStr (js ''x'')),
                       (js ''opts'', JArr [JStr (js ''a''), JStr (js ''b'')]),
                       (js ''ans'', JNum (Fin 5))]]",
                THEN conjunct2, THEN conjunct2, THEN mp])
       (use p6_located p6_parsed p6_invalid in \<open>simp add: p6_value_def p6_text_def\<close>)
  have B: "validate_questions (\<lambda>xs. None) p6_value = Inl (Error (js ''Invalid correct answer index''))"
    by (simp add: validate_questions_def p6_value_def process_question_def opt_prop_def js_or_def)
  have C: "validate_questions (\<lambda>xs. None) (JObj []) = Inl (Error unable_message)"
    by (rule T [THEN conjunct1, THEN mp]) simp
  show ?thesis
    using A B C by (intro conjI)
qed

end
